theory Spec2Isabelle
  imports Main "HOL-Library.Monad_Syntax"
begin

section \<open>Library behaviour the scheduling code relies on\<close>

text \<open>
  The booking code of \<^verbatim>\<open>backend/api/calendly_integration.py\<close> works on strings and on
  naive \<^verbatim>\<open>datetime\<close> values. A string is a list of characters with code points
  below 256. A \<^verbatim>\<open>datetime\<close> whose seconds and microseconds are zero (the only ones the code
  builds) is the number of minutes since the start of day number 0 of the proleptic
  Gregorian calendar: \<open>ordinal * 1440 + hour * 60 + minute\<close>. Comparison of two naive
  datetimes is comparison of these numbers.
\<close>

type_synonym datetime = nat

datatype error =
    HTTPException nat string
  | ValueError
  | KeyError
  | OverflowError

subsection \<open>Calendar arithmetic\<close>

definition is_leap :: "nat \<Rightarrow> bool" where
  "is_leap year = (year mod 4 = 0 \<and> (year mod 100 \<noteq> 0 \<or> year mod 400 = 0))"

definition days_before_year :: "nat \<Rightarrow> nat" where
  "days_before_year year =
     (let y = year - 1 in y * 365 + y div 4 - y div 100 + y div 400)"

definition DAYS_IN_MONTH :: "nat list" where
  "DAYS_IN_MONTH = [31, 28, 31, 30, 31, 30, 31, 31, 30, 31, 30, 31]"

definition days_in_month :: "nat \<Rightarrow> nat \<Rightarrow> nat" where
  "days_in_month year month =
     (if month = 2 \<and> is_leap year then 29 else DAYS_IN_MONTH ! (month - 1))"

definition days_before_month :: "nat \<Rightarrow> nat \<Rightarrow> nat" where
  "days_before_month year month =
     sum_list (take (month - 1) DAYS_IN_MONTH) + (if month > 2 \<and> is_leap year then 1 else 0)"

definition ymd2ord :: "nat \<Rightarrow> nat \<Rightarrow> nat \<Rightarrow> nat" where
  "ymd2ord year month day = days_before_year year + days_before_month year month + day"

definition MAXORDINAL :: nat where
  "MAXORDINAL = 3652059"

text \<open>
  The constructor of a date raises \<^verbatim>\<open>ValueError\<close> for year 0 and for a day the month
  does not have; \<open>check_date\<close> returns the ordinal of a date it accepts.
\<close>

definition check_date :: "nat \<times> nat \<times> nat \<Rightarrow> nat option" where
  "check_date ymd =
     (case ymd of (year, month, day) \<Rightarrow>
        if 1 \<le> year \<and> year \<le> 9999 \<and> 1 \<le> month \<and> month \<le> 12
           \<and> 1 \<le> day \<and> day \<le> days_in_month year month
        then Some (ymd2ord year month day) else None)"

text \<open>
  \<^verbatim>\<open>dt + timedelta(minutes=n)\<close>: the sum, or \<^verbatim>\<open>OverflowError\<close> when its day is not in
  \<open>1..MAXORDINAL\<close>.
\<close>

definition add_minutes :: "datetime \<Rightarrow> nat \<Rightarrow> error + datetime" where
  "add_minutes dt n =
     (let days = (dt + n) div 1440
      in if 0 < days \<and> days \<le> MAXORDINAL then Inr (dt + n) else Inl OverflowError)"

subsection \<open>The regular expressions of strptime\<close>

text \<open>
  \<^verbatim>\<open>datetime.strptime\<close> turns the format into a regular expression, matches it at the
  start of the input and raises \<^verbatim>\<open>ValueError\<close> when there is no match or when input
  remains after the match. The groups are
  \<^verbatim>\<open>Y = \d\d\d\d\<close>, \<^verbatim>\<open>m = 1[0-2]|0[1-9]|[1-9]\<close>,
  \<^verbatim>\<open>d = 3[0-1]|[1-2]\d|0[1-9]|[1-9]| [1-9]\<close>, \<^verbatim>\<open>H = 2[0-3]|[0-1]\d|\d\<close>,
  \<^verbatim>\<open>M = [0-5]\d|\d\<close>, and a blank of the format stands for \<^verbatim>\<open>\s+\<close>.
  Each group function below tries the alternatives in the order of the expression and
  returns the value read and the rest of the input. In the two formats of this program a
  group that has matched two characters is never re-matched on one: the character after
  the shorter match would be a digit, where the format needs \<^verbatim>\<open>-\<close>, \<^verbatim>\<open>:\<close> or white space;
  so the first alternative that matches decides.
\<close>

definition cls :: "char \<Rightarrow> char \<Rightarrow> char \<Rightarrow> bool" where
  "cls lo hi c = ((of_char lo :: nat) \<le> of_char c \<and> (of_char c :: nat) \<le> of_char hi)"

definition is_digit :: "char \<Rightarrow> bool" where
  "is_digit c = cls (CHR ''0'') (CHR ''9'') c"

definition digit_val :: "char \<Rightarrow> nat" where
  "digit_val c = of_char c - 48"

definition is_space :: "char \<Rightarrow> bool" where
  "is_space c =
     (let n = (of_char c :: nat)
      in (9 \<le> n \<and> n \<le> 13) \<or> (28 \<le> n \<and> n \<le> 32) \<or> n = 133 \<or> n = 160)"

fun grp_Y :: "string \<Rightarrow> (nat \<times> string) option" where
  "grp_Y (a # b # c # d # r) =
     (if is_digit a \<and> is_digit b \<and> is_digit c \<and> is_digit d
      then Some (1000 * digit_val a + 100 * digit_val b + 10 * digit_val c + digit_val d, r)
      else None)"
| "grp_Y _ = None"

fun grp_m :: "string \<Rightarrow> (nat \<times> string) option" where
  "grp_m (a # b # r) =
     (if a = CHR ''1'' \<and> cls (CHR ''0'') (CHR ''2'') b then Some (10 + digit_val b, r)
      else if a = CHR ''0'' \<and> cls (CHR ''1'') (CHR ''9'') b then Some (digit_val b, r)
      else if cls (CHR ''1'') (CHR ''9'') a then Some (digit_val a, b # r)
      else None)"
| "grp_m [a] = (if cls (CHR ''1'') (CHR ''9'') a then Some (digit_val a, []) else None)"
| "grp_m [] = None"

fun grp_d :: "string \<Rightarrow> (nat \<times> string) option" where
  "grp_d (a # b # r) =
     (if a = CHR ''3'' \<and> cls (CHR ''0'') (CHR ''1'') b then Some (30 + digit_val b, r)
      else if cls (CHR ''1'') (CHR ''2'') a \<and> is_digit b
        then Some (10 * digit_val a + digit_val b, r)
      else if a = CHR ''0'' \<and> cls (CHR ''1'') (CHR ''9'') b then Some (digit_val b, r)
      else if cls (CHR ''1'') (CHR ''9'') a then Some (digit_val a, b # r)
      else if a = CHR '' '' \<and> cls (CHR ''1'') (CHR ''9'') b then Some (digit_val b, r)
      else None)"
| "grp_d [a] = (if cls (CHR ''1'') (CHR ''9'') a then Some (digit_val a, []) else None)"
| "grp_d [] = None"

fun grp_H :: "string \<Rightarrow> (nat \<times> string) option" where
  "grp_H (a # b # r) =
     (if a = CHR ''2'' \<and> cls (CHR ''0'') (CHR ''3'') b then Some (20 + digit_val b, r)
      else if cls (CHR ''0'') (CHR ''1'') a \<and> is_digit b
        then Some (10 * digit_val a + digit_val b, r)
      else if is_digit a then Some (digit_val a, b # r)
      else None)"
| "grp_H [a] = (if is_digit a then Some (digit_val a, []) else None)"
| "grp_H [] = None"

fun grp_M :: "string \<Rightarrow> (nat \<times> string) option" where
  "grp_M (a # b # r) =
     (if cls (CHR ''0'') (CHR ''5'') a \<and> is_digit b
        then Some (10 * digit_val a + digit_val b, r)
      else if is_digit a then Some (digit_val a, b # r)
      else None)"
| "grp_M [a] = (if is_digit a then Some (digit_val a, []) else None)"
| "grp_M [] = None"

fun lit :: "char \<Rightarrow> string \<Rightarrow> string option" where
  "lit c (a # r) = (if a = c then Some r else None)"
| "lit c [] = None"

fun spaces1 :: "string \<Rightarrow> string option" where
  "spaces1 (a # r) = (if is_space a then Some (dropWhile is_space r) else None)"
| "spaces1 [] = None"

definition match_ymd :: "string \<Rightarrow> ((nat \<times> nat \<times> nat) \<times> string) option" where
  "match_ymd s = do {
     (year, r1) \<leftarrow> grp_Y s;
     r2 \<leftarrow> lit (CHR ''-'') r1;
     (month, r3) \<leftarrow> grp_m r2;
     r4 \<leftarrow> lit (CHR ''-'') r3;
     (day, r5) \<leftarrow> grp_d r4;
     Some ((year, month, day), r5)
   }"

definition match_HM :: "string \<Rightarrow> (nat \<times> string) option" where
  "match_HM s = do {
     (hour, r1) \<leftarrow> grp_H s;
     r2 \<leftarrow> lit (CHR '':'') r1;
     (minute, r3) \<leftarrow> grp_M r2;
     Some (hour * 60 + minute, r3)
   }"

text \<open>\<^verbatim>\<open>datetime.strptime(s, "%Y-%m-%d")\<close>: the ordinal of the day (the time is midnight).\<close>

definition strptime_date :: "string \<Rightarrow> nat option" where
  "strptime_date s = do {
     (ymd, r) \<leftarrow> match_ymd s;
     if r = [] then check_date ymd else None
   }"

text \<open>\<^verbatim>\<open>datetime.strptime(s, "%Y-%m-%d %H:%M")\<close>.\<close>

definition strptime_datetime :: "string \<Rightarrow> datetime option" where
  "strptime_datetime s = do {
     (ymd, r) \<leftarrow> match_ymd s;
     r1 \<leftarrow> spaces1 r;
     (hm, r2) \<leftarrow> match_HM r1;
     if r2 = [] then do { ord \<leftarrow> check_date ymd; Some (ord * 1440 + hm) } else None
   }"

text \<open>\<^verbatim>\<open>"%02d" % n\<close> for \<open>n < 100\<close>, and \<^verbatim>\<open>dt.strftime("%H:%M")\<close>.\<close>

definition digit_char :: "nat \<Rightarrow> char" where
  "digit_char n = ''0123456789'' ! n"

definition two_digits :: "nat \<Rightarrow> string" where
  "two_digits n = [digit_char (n div 10), digit_char (n mod 10)]"

definition strftime_HM :: "datetime \<Rightarrow> string" where
  "strftime_HM dt =
     (let m = dt mod 1440 in two_digits (m div 60) @ [CHR '':''] @ two_digits (m mod 60))"


section \<open>Data model\<close>

text \<open>
  The classes of \<^verbatim>\<open>backend/models/schemas.py\<close>. The fields of \<^verbatim>\<open>BookingRequest\<close> and
  \<^verbatim>\<open>BookingDetails\<close> carry a prefix, since a field name is a constant here and
  \<^verbatim>\<open>Slot\<close> already has \<open>start_time\<close> and \<open>end_time\<close>.
\<close>

record Slot =
  start_time :: string
  end_time :: string
  available :: bool

record Patient =
  name :: string
  email :: string
  phone :: string

record BookingRequest =
  req_appointment_type :: string
  req_date :: string
  req_start_time :: string
  req_patient :: Patient
  req_reason :: "string option"

record BookingDetails =
  det_appointment_type :: string
  det_date :: string
  det_start_time :: string
  det_end_time :: string
  det_patient :: Patient
  det_reason :: "string option"

record BookingResponse =
  booking_id :: string
  status :: string
  confirmation_code :: string
  details :: BookingDetails

text \<open>
  The content of \<^verbatim>\<open>data/doctor_schedule.json\<close> at the shape the code reads it:
  \<^verbatim>\<open>working_hours\<close> maps a weekday name to its \<^verbatim>\<open>start\<close> and \<^verbatim>\<open>end\<close> strings (a weekday
  that is missing, null or empty is \<open>None\<close>), \<^verbatim>\<open>existing_bookings\<close> is a list of entries.
\<close>

record hours =
  hours_start :: string
  hours_end :: string

record booking_entry =
  entry_date :: string
  entry_start_time :: string
  entry_end_time :: string

record schedule =
  working_hours :: "string \<rightharpoonup> hours"
  existing_bookings :: "booking_entry list"

text \<open>\<^verbatim>\<open>RUNTIME_BOOKINGS\<close>: the one piece of mutable state, passed explicitly.\<close>

type_synonym bookings = "string \<rightharpoonup> (string \<times> string) list"

definition dict_get :: "('k \<rightharpoonup> 'v) \<Rightarrow> 'k \<Rightarrow> 'v \<Rightarrow> 'v \<times> ('k \<rightharpoonup> 'v)" where
  "dict_get m k dflt = (case m k of None \<Rightarrow> (dflt, m) | Some v \<Rightarrow> (v, m))"

definition dict_setdefault :: "('k \<rightharpoonup> 'v) \<Rightarrow> 'k \<Rightarrow> 'v \<Rightarrow> 'v \<times> ('k \<rightharpoonup> 'v)" where
  "dict_setdefault m k dflt = (case m k of None \<Rightarrow> (dflt, m(k \<mapsto> dflt)) | Some v \<Rightarrow> (v, m))"

definition APPOINTMENT_DURATIONS_MIN :: "string \<rightharpoonup> nat" where
  "APPOINTMENT_DURATIONS_MIN =
     map_of [(''consultation'', 30), (''followup'', 15), (''physical'', 45), (''special'', 60)]"

section \<open>The functions of calendly_integration.py\<close>

text \<open>The schedule file is an argument: \<open>None\<close> when the file does not exist.\<close>

definition load_schedule :: "schedule option \<Rightarrow> error + schedule" where
  "load_schedule file =
     (case file of
        None \<Rightarrow> Inl (HTTPException 500 ''Schedule data not found'')
      | Some data \<Rightarrow> Inr data)"

definition parse_time :: "string \<Rightarrow> string \<Rightarrow> error + datetime" where
  "parse_time date_str time_str =
     (case strptime_datetime (date_str @ '' '' @ time_str) of
        None \<Rightarrow> Inl ValueError
      | Some dt \<Rightarrow> Inr dt)"

definition format_time :: "datetime \<Rightarrow> string" where
  "format_time dt = strftime_HM dt"

definition overlaps :: "datetime \<Rightarrow> datetime \<Rightarrow> datetime \<Rightarrow> datetime \<Rightarrow> bool" where
  "overlaps a_start a_end b_start b_end = (a_start < b_end \<and> b_start < a_end)"

definition get_weekday :: "string \<Rightarrow> error + string" where
  "get_weekday date_str =
     (case strptime_date date_str of
        None \<Rightarrow> Inl ValueError
      | Some ordinal \<Rightarrow>
          Inr ([''monday'', ''tuesday'', ''wednesday'', ''thursday'', ''friday'', ''saturday'',
                ''sunday''] ! ((ordinal + 6) mod 7)))"

fun file_loop ::
  "string \<Rightarrow> booking_entry list \<Rightarrow> (datetime \<times> datetime) list
     \<Rightarrow> error + (datetime \<times> datetime) list" where
  "file_loop date_str [] file_bookings = Inr file_bookings"
| "file_loop date_str (entry # rest) file_bookings =
     (if entry_date entry = date_str then
        (case parse_time date_str (entry_start_time entry) of
           Inl e \<Rightarrow> Inl e
         | Inr start \<Rightarrow>
             (case parse_time date_str (entry_end_time entry) of
                Inl e \<Rightarrow> Inl e
              | Inr end \<Rightarrow> file_loop date_str rest (file_bookings @ [(start, end)])))
      else file_loop date_str rest file_bookings)"

fun runtime_loop ::
  "string \<Rightarrow> (string \<times> string) list \<Rightarrow> (datetime \<times> datetime) list
     \<Rightarrow> error + (datetime \<times> datetime) list" where
  "runtime_loop date_str [] file_bookings = Inr file_bookings"
| "runtime_loop date_str ((start_str, end_str) # rest) file_bookings =
     (case parse_time date_str start_str of
        Inl e \<Rightarrow> Inl e
      | Inr start \<Rightarrow>
          (case parse_time date_str end_str of
             Inl e \<Rightarrow> Inl e
           | Inr end \<Rightarrow> runtime_loop date_str rest (file_bookings @ [(start, end)])))"

text \<open>
  Every function that touches \<^verbatim>\<open>RUNTIME_BOOKINGS\<close> takes the store and returns it with
  its result, so that what it writes is part of what it computes.
\<close>

definition collect_existing_bookings ::
  "schedule \<Rightarrow> string \<Rightarrow> bookings \<Rightarrow> (error + (datetime \<times> datetime) list) \<times> bookings" where
  "collect_existing_bookings schedule_data date_str store =
     (case file_loop date_str (existing_bookings schedule_data) [] of
        Inl e \<Rightarrow> (Inl e, store)
      | Inr file_bookings \<Rightarrow>
          (case dict_get store date_str [] of
             (runtime_entries, store1) \<Rightarrow>
               (runtime_loop date_str runtime_entries file_bookings, store1)))"

text \<open>
  The \<^verbatim>\<open>while\<close> loop of \<^verbatim>\<open>_generate_slots\<close>. With \<open>duration_min = 0\<close> the source would
  not leave the loop; \<open>None\<close> stands for not returning.
\<close>

partial_function (option) slots_loop ::
  "(datetime \<times> datetime) list \<Rightarrow> nat \<Rightarrow> datetime \<Rightarrow> datetime \<Rightarrow> Slot list
     \<Rightarrow> (error + Slot list) option" where
  "slots_loop existing duration_min day_end cursor slots =
     (case add_minutes cursor duration_min of
        Inl e \<Rightarrow> Some (Inl e)
      | Inr candidate_end \<Rightarrow>
          if candidate_end \<le> day_end then
            (let candidate_start = cursor;
                 has_conflict =
                   list_ex (\<lambda>(b_start, b_end).
                     overlaps candidate_start candidate_end b_start b_end) existing
             in slots_loop existing duration_min day_end candidate_end
                  (slots @ [\<lparr>start_time = format_time candidate_start,
                              end_time = format_time candidate_end,
                              available = \<not> has_conflict\<rparr>]))
          else Some (Inr slots))"

definition generate_slots ::
  "schedule option \<Rightarrow> string \<Rightarrow> string \<Rightarrow> bookings
     \<Rightarrow> ((error + Slot list) \<times> bookings) option" where
  "generate_slots file date_str appointment_type store =
     (case load_schedule file of
        Inl e \<Rightarrow> Some (Inl e, store)
      | Inr schedule_data \<Rightarrow>
     (case get_weekday date_str of
        Inl e \<Rightarrow> Some (Inl e, store)
      | Inr weekday \<Rightarrow>
     (case working_hours schedule_data weekday of
        None \<Rightarrow> Some (Inr [], store)
      | Some hours \<Rightarrow>
     (case APPOINTMENT_DURATIONS_MIN appointment_type of
        None \<Rightarrow> Some (Inl KeyError, store)
      | Some duration_min \<Rightarrow>
     (case parse_time date_str (hours_start hours) of
        Inl e \<Rightarrow> Some (Inl e, store)
      | Inr day_start \<Rightarrow>
     (case parse_time date_str (hours_end hours) of
        Inl e \<Rightarrow> Some (Inl e, store)
      | Inr day_end \<Rightarrow>
     (case collect_existing_bookings schedule_data date_str store of
        (Inl e, store1) \<Rightarrow> Some (Inl e, store1)
      | (Inr existing, store1) \<Rightarrow>
          map_option (\<lambda>r. (r, store1))
            (slots_loop existing duration_min day_end day_start []))))))))"

text \<open>
  \<^verbatim>\<open>slot_map\<close>: the dict comprehension keeps, for a key that occurs twice, the last slot.
\<close>

definition slot_map :: "Slot list \<Rightarrow> (string \<times> string) \<rightharpoonup> Slot" where
  "slot_map available_slots =
     fold (\<lambda>s m. m((start_time s, end_time s) \<mapsto> s)) available_slots Map.empty"

text \<open>
  \<^verbatim>\<open>book_appointment\<close>. The two identifiers the source draws from \<^verbatim>\<open>uuid4\<close> and the
  clock are the argument \<open>fresh\<close>. An exception the source does not catch leaves the
  function as it is; the store at that moment is returned with it.
\<close>

definition book_appointment ::
  "schedule option \<Rightarrow> string \<times> string \<Rightarrow> BookingRequest \<Rightarrow> bookings
     \<Rightarrow> ((error + BookingResponse) \<times> bookings) option" where
  "book_appointment file fresh request store =
     (case APPOINTMENT_DURATIONS_MIN (req_appointment_type request) of
        None \<Rightarrow> Some (Inl (HTTPException 400 ''Invalid appointment_type''), store)
      | Some duration_min \<Rightarrow>
     (case parse_time (req_date request) (req_start_time request) of
        Inl e \<Rightarrow>
          Some (Inl (if e = ValueError then HTTPException 400 ''Invalid date/time format'' else e),
                store)
      | Inr start_dt \<Rightarrow>
     (case add_minutes start_dt duration_min of
        Inl e \<Rightarrow> Some (Inl e, store)
      | Inr end_dt \<Rightarrow>
     (case generate_slots file (req_date request) (req_appointment_type request) store of
        None \<Rightarrow> None
      | Some (Inl e, store1) \<Rightarrow> Some (Inl e, store1)
      | Some (Inr available_slots, store1) \<Rightarrow>
          (let key = (req_start_time request, strftime_HM end_dt)
           in case slot_map available_slots key of
                None \<Rightarrow>
                  Some (Inl (HTTPException 400 ''Requested time is outside working hours''),
                        store1)
              | Some s \<Rightarrow>
                  if \<not> available s then
                    Some (Inl (HTTPException 409 ''Requested time is no longer available''),
                          store1)
                  else
                    (case dict_setdefault store1 (req_date request) [] of
                       (entries, store2) \<Rightarrow>
                         Some (Inr \<lparr>booking_id = fst fresh,
                                    status = ''confirmed'',
                                    confirmation_code = snd fresh,
                                    details =
                                      \<lparr>det_appointment_type = req_appointment_type request,
                                       det_date = req_date request,
                                       det_start_time = req_start_time request,
                                       det_end_time = snd key,
                                       det_patient = req_patient request,
                                       det_reason = req_reason request\<rparr>\<rparr>,
                               store2(req_date request \<mapsto> entries @ [(fst key, snd key)]))))))))"

text \<open>A sequence of book operations, one after the other, on one schedule file.\<close>

fun book_all ::
  "schedule option \<Rightarrow> ((string \<times> string) \<times> BookingRequest) list \<Rightarrow> bookings
     \<Rightarrow> bookings option" where
  "book_all file [] store = Some store"
| "book_all file ((fresh, request) # rest) store =
     (case book_appointment file fresh request store of
        None \<Rightarrow> None
      | Some (result, store1) \<Rightarrow> book_all file rest store1)"

section \<open>Notions used in the statements\<close>

text \<open>The slot the loop appends when its cursor is \<open>c\<close>.\<close>

definition slot_at :: "(datetime \<times> datetime) list \<Rightarrow> nat \<Rightarrow> datetime \<Rightarrow> Slot" where
  "slot_at existing duration_min c =
     \<lparr>start_time = format_time c, end_time = format_time (c + duration_min),
      available = \<not> list_ex (\<lambda>(b_start, b_end). overlaps c (c + duration_min) b_start b_end) existing\<rparr>"

text \<open>
  The loop runs \<open>n\<close> times from \<open>c\<close>: each of the first \<open>n\<close> candidates ends within the
  day's window, and the next one is computed and ends after it.
\<close>

definition on_grid :: "nat \<Rightarrow> datetime \<Rightarrow> datetime \<Rightarrow> nat \<Rightarrow> bool" where
  "on_grid dur day_end c n \<longleftrightarrow>
     (\<forall>k<n. add_minutes (c + k * dur) dur = Inr (c + k * dur + dur) \<and> c + k * dur + dur \<le> day_end)
     \<and> add_minutes (c + n * dur) dur = Inr (c + n * dur + dur)
     \<and> day_end < c + n * dur + dur"


text \<open>Two availability queries in a row, the second on the store the first one left.\<close>

definition two_queries ::
  "schedule option \<Rightarrow> string \<Rightarrow> string \<Rightarrow> bookings
     \<Rightarrow> ((error + Slot list) \<times> (error + Slot list) \<times> bookings) option" where
  "two_queries file date_str appointment_type store =
     (case generate_slots file date_str appointment_type store of
        None \<Rightarrow> None
      | Some (first, store1) \<Rightarrow>
          (case generate_slots file date_str appointment_type store1 of
             None \<Rightarrow> None
           | Some (second, store2) \<Rightarrow> Some (first, second, store2)))"




text \<open>The key of a slot in \<^verbatim>\<open>slot_map\<close>.\<close>

definition slot_key :: "Slot \<Rightarrow> string \<times> string" where
  "slot_key s = (start_time s, end_time s)"

definition put_slot :: "Slot \<Rightarrow> ((string \<times> string) \<rightharpoonup> Slot) \<Rightarrow> ((string \<times> string) \<rightharpoonup> Slot)" where
  "put_slot s m = m(slot_key s \<mapsto> s)"

text \<open>The response of a successful booking whose end time is \<open>end_str\<close>.\<close>

definition confirmation :: "string \<times> string \<Rightarrow> BookingRequest \<Rightarrow> string \<Rightarrow> BookingResponse" where
  "confirmation fresh request end_str =
     \<lparr>booking_id = fst fresh,
      status = ''confirmed'',
      confirmation_code = snd fresh,
      details =
        \<lparr>det_appointment_type = req_appointment_type request,
         det_date = req_date request,
         det_start_time = req_start_time request,
         det_end_time = end_str,
         det_patient = req_patient request,
         det_reason = req_reason request\<rparr>\<rparr>"

text \<open>The runtime entries of a date: \<^verbatim>\<open>RUNTIME_BOOKINGS.get(date_str, [])\<close>.\<close>

definition runtime_entries :: "bookings \<Rightarrow> string \<Rightarrow> (string \<times> string) list" where
  "runtime_entries store date_str = (case store date_str of None \<Rightarrow> [] | Some entries \<Rightarrow> entries)"


definition calendar_date :: "string \<Rightarrow> (nat \<times> nat \<times> nat) option" where
  "calendar_date s =
     (case match_ymd s of
        None \<Rightarrow> None
      | Some (ymd, r) \<Rightarrow> if r = [] \<and> check_date ymd \<noteq> None then Some ymd else None)"

text \<open>
  What is recorded under a date string, read off the schedule file and the store and not
  through the functions of the program: the start and end strings of the file's bookings
  with that date string, followed by the entries of the store under that key; and the
  interval such a pair of strings stands for, when both parse.
\<close>

definition entries_for :: "schedule \<Rightarrow> bookings \<Rightarrow> string \<Rightarrow> (string \<times> string) list" where
  "entries_for schedule_data store date_str =
     map (\<lambda>entry. (entry_start_time entry, entry_end_time entry))
       (filter (\<lambda>entry. entry_date entry = date_str) (existing_bookings schedule_data))
     @ (case store date_str of None \<Rightarrow> [] | Some entries \<Rightarrow> entries)"

definition interval_at :: "string \<Rightarrow> string \<times> string \<Rightarrow> (datetime \<times> datetime) option" where
  "interval_at date_str p =
     (case (parse_time date_str (fst p), parse_time date_str (snd p)) of
        (Inr a, Inr b) \<Rightarrow> Some (a, b)
      | _ \<Rightarrow> None)"




text \<open>
  No two intervals recorded for a calendar date overlap: take any two spellings of the date
  and any two entries recorded under them, not the same entry; when both can be read, they
  do not overlap.
\<close>

definition day_disjoint :: "schedule \<Rightarrow> bookings \<Rightarrow> nat \<times> nat \<times> nat \<Rightarrow> bool" where
  "day_disjoint schedule_data store day \<longleftrightarrow>
     (\<forall>d1 d2 i1 i2 x y.
        calendar_date d1 = Some day \<and> calendar_date d2 = Some day \<and>
        i1 < length (entries_for schedule_data store d1) \<and>
        i2 < length (entries_for schedule_data store d2) \<and>
        (d1, i1) \<noteq> (d2, i2) \<and>
        interval_at d1 (entries_for schedule_data store d1 ! i1) = Some x \<and>
        interval_at d2 (entries_for schedule_data store d2 ! i2) = Some y
        \<longrightarrow> \<not> overlaps (fst x) (snd x) (fst y) (snd y))"

section \<open>Example data\<close>

text \<open>
  The example of the specification: Monday 09:00 to 10:00, no pre-existing bookings.
  2024-01-15 is a Monday, 2024-01-14 a Sunday.
\<close>

definition example_schedule :: schedule where
  "example_schedule =
     \<lparr>working_hours = [''monday'' \<mapsto> \<lparr>hours_start = ''09:00'', hours_end = ''10:00''\<rparr>],
      existing_bookings = []\<rparr>"

text \<open>The same hours, with one pre-existing booking on the Sunday and one on the Monday.\<close>

definition busy_schedule :: schedule where
  "busy_schedule =
     \<lparr>working_hours = [''monday'' \<mapsto> \<lparr>hours_start = ''09:00'', hours_end = ''10:00''\<rparr>],
      existing_bookings =
        [\<lparr>entry_date = ''2024-01-14'', entry_start_time = ''09:00'', entry_end_time = ''09:30''\<rparr>,
         \<lparr>entry_date = ''2024-01-15'', entry_start_time = ''09:30'', entry_end_time = ''10:00''\<rparr>]\<rparr>"

definition example_patient :: Patient where
  "example_patient = \<lparr>name = ''John Doe'', email = ''john@example.com'', phone = ''+1-555-0100''\<rparr>"

definition example_request :: "string \<Rightarrow> string \<Rightarrow> string \<Rightarrow> BookingRequest" where
  "example_request ty d t =
     \<lparr>req_appointment_type = ty, req_date = d, req_start_time = t,
      req_patient = example_patient, req_reason = None\<rparr>"

text \<open>The two slots of the example, both free.\<close>

definition two_slots :: "Slot list" where
  "two_slots =
     [\<lparr>start_time = ''09:00'', end_time = ''09:30'', available = True\<rparr>,
      \<lparr>start_time = ''09:30'', end_time = ''10:00'', available = True\<rparr>]"

text \<open>Friday hours (9999-12-31 is a Friday), and a file whose two bookings overlap.\<close>

definition friday_schedule :: schedule where
  "friday_schedule =
     \<lparr>working_hours = [''friday'' \<mapsto> \<lparr>hours_start = ''09:00'', hours_end = ''10:00''\<rparr>],
      existing_bookings = []\<rparr>"

definition overlapping_schedule :: schedule where
  "overlapping_schedule =
     \<lparr>working_hours = [''monday'' \<mapsto> \<lparr>hours_start = ''09:00'', hours_end = ''11:00''\<rparr>],
      existing_bookings =
        [\<lparr>entry_date = ''2024-01-15'', entry_start_time = ''09:00'', entry_end_time = ''10:00''\<rparr>,
         \<lparr>entry_date = ''2024-01-15'', entry_start_time = ''09:30'', entry_end_time = ''10:30''\<rparr>]\<rparr>"

definition example_fresh :: "string \<times> string" where
  "example_fresh = (''APPT-20240110-1A2B3C4D'', ''5E6F7A'')"

section \<open>Parsing and formatting times\<close>

lemma digit_cases: "n < 10 \<Longrightarrow> n \<in> {0, 1, 2, 3, 4, 5, 6, 7, 8, 9 :: nat}"
  by auto

lemma of_char_digit_char: "n < 10 \<Longrightarrow> (of_char (digit_char n) :: nat) = 48 + n"
  using digit_cases [of n] by (auto simp: digit_char_def)

lemma digit_char_props:
  assumes "n < 10"
  shows "is_digit (digit_char n)" and "digit_val (digit_char n) = n"
    and "\<not> is_space (digit_char n)"
    and "cls (CHR ''0'') (CHR ''1'') (digit_char n) \<longleftrightarrow> n \<le> 1"
    and "cls (CHR ''0'') (CHR ''3'') (digit_char n) \<longleftrightarrow> n \<le> 3"
    and "cls (CHR ''0'') (CHR ''5'') (digit_char n) \<longleftrightarrow> n \<le> 5"
    and "digit_char n = CHR ''2'' \<longleftrightarrow> n = 2"
  using digit_cases [OF assms] by (auto simp: digit_char_def is_digit_def cls_def digit_val_def is_space_def)

lemma grp_H_two_digits: "h < 24 \<Longrightarrow> grp_H (two_digits h @ r) = Some (h, r)"
proof -
  assume h: "h < 24"
  then have a: "h div 10 < 10" and b: "h mod 10 < 10" by simp_all
  from h have c: "h div 10 = 2 \<and> h mod 10 \<le> 3 \<or> h div 10 \<le> 1" by arith
  have d: "10 * (h div 10) + h mod 10 = h" by simp
  have e: "h div 10 = 2 \<Longrightarrow> 20 + h mod 10 = h" by arith
  show ?thesis using c d e
    by (auto simp: two_digits_def digit_char_props [OF a] digit_char_props [OF b])
qed

lemma grp_M_two_digits: "m < 60 \<Longrightarrow> grp_M (two_digits m) = Some (m, [])"
proof -
  assume h: "m < 60"
  then have a: "m div 10 < 10" and b: "m mod 10 < 10" by simp_all
  from h have c: "m div 10 \<le> 5" by arith
  have d: "10 * (m div 10) + m mod 10 = m" by simp
  show ?thesis using c d
    by (auto simp: two_digits_def digit_char_props [OF a] digit_char_props [OF b])
qed

lemma match_HM_strftime: "match_HM (strftime_HM dt) = Some (dt mod 1440, [])"
proof -
  have a: "dt mod 1440 div 60 < 24" and b: "dt mod 1440 mod 60 < 60" by simp_all
  show ?thesis
    by (simp add: match_HM_def strftime_HM_def Let_def grp_H_two_digits [OF a] grp_M_two_digits [OF b])
qed

lemma strftime_HM_no_space: "dropWhile is_space (strftime_HM dt) = strftime_HM dt"
proof -
  have a: "dt mod 1440 div 60 div 10 < 10" by simp
  show ?thesis
    by (simp add: strftime_HM_def Let_def two_digits_def digit_char_props(3) [OF a])
qed

lemma grp_H_bound: "grp_H s = Some (h, r) \<Longrightarrow> h < 24"
  by (induction s rule: grp_H.induct) (auto simp: cls_def is_digit_def digit_val_def split: if_splits)

lemma grp_M_bound: "grp_M s = Some (m, r) \<Longrightarrow> m < 60"
  by (induction s rule: grp_M.induct) (auto simp: cls_def is_digit_def digit_val_def split: if_splits)

lemma match_HM_bound: "match_HM s = Some (hm, r) \<Longrightarrow> hm < 1440"
  by (auto simp: match_HM_def bind_eq_Some_conv dest!: grp_H_bound grp_M_bound)

lemma grp_Y_append: "grp_Y s = Some (y, r) \<Longrightarrow> grp_Y (s @ t) = Some (y, r @ t)"
  by (induction s rule: grp_Y.induct) (auto split: if_splits)

lemma lit_append: "lit c s = Some r \<Longrightarrow> lit c (s @ t) = Some (r @ t)"
  by (cases s) (auto split: if_splits)

lemma grp_m_append: "grp_m s = Some (m, r) \<Longrightarrow> r \<noteq> [] \<Longrightarrow> grp_m (s @ t) = Some (m, r @ t)"
  by (induction s rule: grp_m.induct) (auto split: if_splits)

lemma grp_d_append_space:
  "grp_d s = Some (d, []) \<Longrightarrow> grp_d (s @ CHR '' '' # t) = Some (d, CHR '' '' # t)"
  by (induction s rule: grp_d.induct) (auto simp: cls_def is_digit_def split: if_splits)

lemma match_ymd_append_space:
  assumes "match_ymd s = Some (ymd, [])"
  shows "match_ymd (s @ CHR '' '' # t) = Some (ymd, CHR '' '' # t)"
proof -
  from assms obtain y r1 r2 m r3 r4 d where
    1: "grp_Y s = Some (y, r1)" and 2: "lit (CHR ''-'') r1 = Some r2" and
    3: "grp_m r2 = Some (m, r3)" and 4: "lit (CHR ''-'') r3 = Some r4" and
    5: "grp_d r4 = Some (d, [])" and 6: "ymd = (y, m, d)"
    by (auto simp: match_ymd_def bind_eq_Some_conv)
  from 4 have ne: "r3 \<noteq> []" by auto
  show ?thesis
    using grp_Y_append [OF 1] lit_append [OF 2] grp_m_append [OF 3 ne] lit_append [OF 4]
      grp_d_append_space [OF 5] 6
    by (simp add: match_ymd_def)
qed

lemma parse_time_of_date:
  assumes "strptime_date date_str = Some ordinal"
  shows "parse_time date_str time_str =
     (case match_HM (dropWhile is_space time_str) of
        Some (hm, []) \<Rightarrow> Inr (ordinal * 1440 + hm)
      | _ \<Rightarrow> Inl ValueError)"
proof -
  from assms obtain ymd where m: "match_ymd date_str = Some (ymd, [])"
    and c: "check_date ymd = Some ordinal"
    by (auto simp: strptime_date_def bind_eq_Some_conv split: if_splits)
  show ?thesis
    using match_ymd_append_space [OF m] c
    by (auto simp: parse_time_def strptime_datetime_def is_space_def split: option.splits list.splits)
qed

lemma parse_time_format_time:
  assumes "strptime_date date_str = Some ordinal"
  shows "parse_time date_str (format_time dt) = Inr (ordinal * 1440 + dt mod 1440)"
  by (simp add: parse_time_of_date [OF assms] format_time_def strftime_HM_no_space match_HM_strftime)

lemma parse_time_same_day:
  assumes "strptime_date date_str = Some ordinal" and "parse_time date_str time_str = Inr dt"
  shows "ordinal * 1440 \<le> dt \<and> dt < ordinal * 1440 + 1440"
  using assms(2) unfolding parse_time_of_date [OF assms(1)]
  by (auto split: option.splits list.splits dest: match_HM_bound)

section \<open>The slot loop\<close>

lemma add_minutes_Inr: "add_minutes c n = Inr t \<Longrightarrow> t = c + n"
  by (auto simp: add_minutes_def Let_def split: if_splits)

lemma slots_loop_step:
  "add_minutes c dur = Inr (c + dur) \<Longrightarrow> c + dur \<le> de \<Longrightarrow>
   slots_loop ex dur de c acc = slots_loop ex dur de (c + dur) (acc @ [slot_at ex dur c])"
  by (subst slots_loop.simps) (simp add: slot_at_def Let_def)

lemma slots_loop_stop:
  "add_minutes c dur = Inr (c + dur) \<Longrightarrow> de < c + dur \<Longrightarrow>
   slots_loop ex dur de c acc = Some (Inr acc)"
  by (subst slots_loop.simps) simp

lemma slots_loop_raise:
  "add_minutes c dur = Inl e \<Longrightarrow> slots_loop ex dur de c acc = Some (Inl e)"
  by (subst slots_loop.simps) simp

lemma grid_shift:
  "map (\<lambda>k. f (c + k * dur)) [0..<Suc n] = f c # map (\<lambda>k. f (c + dur + k * dur)) [0..<n]"
  by (simp add: map_upt_Suc add.assoc del: upt_Suc)

lemma slots_loop_total:
  assumes "0 < dur"
  shows "\<exists>r. slots_loop ex dur de c acc = Some r"
proof (induction "Suc de - c" arbitrary: c acc rule: less_induct)
  case less
  show ?case
  proof (cases "add_minutes c dur")
    case (Inl e)
    then show ?thesis by (simp add: slots_loop_raise)
  next
    case (Inr t)
    then have t: "t = c + dur" by (rule add_minutes_Inr)
    show ?thesis
    proof (cases "c + dur \<le> de")
      case True
      then have "Suc de - (c + dur) < Suc de - c" using assms by arith
      from less [OF this] show ?thesis using Inr t True by (simp add: slots_loop_step)
    next
      case False
      then show ?thesis using Inr t by (simp add: slots_loop_stop)
    qed
  qed
qed

lemma slots_loop_char:
  assumes "0 < dur" and "slots_loop ex dur de c acc = Some (Inr res)"
  shows "\<exists>n. res = acc @ map (\<lambda>k. slot_at ex dur (c + k * dur)) [0..<n] \<and>
             (\<forall>k<n. add_minutes (c + k * dur) dur = Inr (c + k * dur + dur)
                     \<and> c + k * dur + dur \<le> de) \<and>
             add_minutes (c + n * dur) dur = Inr (c + n * dur + dur) \<and>
             de < c + n * dur + dur"
  using assms(2)
proof (induction "Suc de - c" arbitrary: c acc rule: less_induct)
  case less
  show ?case
  proof (cases "add_minutes c dur")
    case (Inl e)
    then show ?thesis using less.prems by (simp add: slots_loop_raise)
  next
    case (Inr t)
    then have t: "t = c + dur" by (rule add_minutes_Inr)
    show ?thesis
    proof (cases "c + dur \<le> de")
      case True
      then have m: "Suc de - (c + dur) < Suc de - c" using assms(1) by arith
      from less.prems have "slots_loop ex dur de (c + dur) (acc @ [slot_at ex dur c]) = Some (Inr res)"
        using Inr t True by (simp add: slots_loop_step)
      from less.hyps [OF m this] obtain n where
        r: "res = (acc @ [slot_at ex dur c]) @ map (\<lambda>k. slot_at ex dur (c + dur + k * dur)) [0..<n]"
        and b: "\<forall>k<n. add_minutes (c + dur + k * dur) dur = Inr (c + dur + k * dur + dur)
                     \<and> c + dur + k * dur + dur \<le> de"
        and l: "add_minutes (c + dur + n * dur) dur = Inr (c + dur + n * dur + dur)"
        and e: "de < c + dur + n * dur + dur"
        by blast
      have 1: "res = acc @ map (\<lambda>k. slot_at ex dur (c + k * dur)) [0..<Suc n]"
        unfolding grid_shift using r by simp
      have 2: "\<forall>k<Suc n. add_minutes (c + k * dur) dur = Inr (c + k * dur + dur)
                     \<and> c + k * dur + dur \<le> de"
      proof (intro allI impI)
        fix k assume "k < Suc n"
        show "add_minutes (c + k * dur) dur = Inr (c + k * dur + dur) \<and> c + k * dur + dur \<le> de"
        proof (cases k)
          case 0
          then show ?thesis using Inr t True by simp
        next
          case (Suc j)
          then have "j < n" using \<open>k < Suc n\<close> by simp
          with b show ?thesis using Suc by (simp add: add.assoc add.commute add.left_commute)
        qed
      qed
      have 3: "add_minutes (c + Suc n * dur) dur = Inr (c + Suc n * dur + dur)"
        using l by (simp add: add.assoc add.commute add.left_commute)
      have 4: "de < c + Suc n * dur + dur" using e by simp
      from 1 2 3 4 show ?thesis by blast
    next
      case False
      then have "res = acc" using less.prems Inr t by (simp add: slots_loop_stop)
      then show ?thesis using Inr t False by (intro exI [of _ 0]) simp
    qed
  qed
qed

lemma slots_loop_intro:
  assumes "\<forall>k<n. add_minutes (c + k * dur) dur = Inr (c + k * dur + dur) \<and> c + k * dur + dur \<le> de"
    and "add_minutes (c + n * dur) dur = Inr (c + n * dur + dur)"
    and "de < c + n * dur + dur"
  shows "slots_loop ex dur de c acc = Some (Inr (acc @ map (\<lambda>k. slot_at ex dur (c + k * dur)) [0..<n]))"
  using assms
proof (induction n arbitrary: c acc)
  case 0
  then show ?case by (simp add: slots_loop_stop)
next
  case (Suc n)
  from Suc.prems(1) have 0: "add_minutes c dur = Inr (c + dur)" "c + dur \<le> de" by auto
  have a: "\<forall>k<n. add_minutes (c + dur + k * dur) dur = Inr (c + dur + k * dur + dur)
                     \<and> c + dur + k * dur + dur \<le> de"
  proof (intro allI impI)
    fix k assume "k < n"
    then have "Suc k < Suc n" by simp
    with Suc.prems(1) have "add_minutes (c + Suc k * dur) dur = Inr (c + Suc k * dur + dur)
                     \<and> c + Suc k * dur + dur \<le> de" by blast
    then show "add_minutes (c + dur + k * dur) dur = Inr (c + dur + k * dur + dur)
                     \<and> c + dur + k * dur + dur \<le> de" by (simp add: add.assoc)
  qed
  have b: "add_minutes (c + dur + n * dur) dur = Inr (c + dur + n * dur + dur)"
    using Suc.prems(2) by (simp add: add.assoc)
  have c: "de < c + dur + n * dur + dur" using Suc.prems(3) by (simp add: add.assoc)
  show ?case
    unfolding slots_loop_step [OF 0] Suc.IH [OF a b c] grid_shift by simp
qed

section \<open>Slot generation\<close>

lemma durations_pos: "APPOINTMENT_DURATIONS_MIN ty = Some dur \<Longrightarrow> 0 < dur"
  by (auto simp: APPOINTMENT_DURATIONS_MIN_def split: if_splits)

lemma collect_store: "snd (collect_existing_bookings sched d st) = st"
  by (simp add: collect_existing_bookings_def dict_get_def split: sum.splits option.splits)

lemma collect_Inr: "collect_existing_bookings sched d st = (r, st') \<Longrightarrow> st' = st"
  using collect_store [of sched d st] by simp

lemma generate_slots_returns: "\<exists>r. generate_slots f d ty st = Some (r, st)"
proof -
  have "\<exists>r. map_option (\<lambda>r. (r, st)) (slots_loop ex dur de c []) = Some (r, st)"
    if "0 < dur" for ex dur de c
    using slots_loop_total [OF that, of ex de c "[]"] by auto
  then show ?thesis
    by (auto simp: generate_slots_def load_schedule_def split: sum.splits option.splits prod.splits
        dest!: collect_Inr durations_pos)
qed

lemma generate_slots_store: "generate_slots f d ty st = Some (r, st') \<Longrightarrow> st' = st"
  using generate_slots_returns [of f d ty st] by auto

lemma same_day_mod: "ordinal * 1440 \<le> x \<Longrightarrow> x < ordinal * 1440 + 1440 \<Longrightarrow> ordinal * 1440 + x mod 1440 = (x::nat)"
proof -
  assume a: "ordinal * 1440 \<le> x" and b: "x < ordinal * 1440 + 1440"
  define r where "r = x - ordinal * 1440"
  with a b have x: "x = r + ordinal * 1440" and r: "r < 1440" by simp_all
  have "x mod 1440 = r" unfolding x using r by simp
  then show ?thesis using x by simp
qed

lemma get_weekday_date: "get_weekday d = Inr wd \<Longrightarrow> \<exists>ordinal. strptime_date d = Some ordinal"
  by (auto simp: get_weekday_def split: option.splits)

lemma generate_slots_grid:
  assumes gen: "generate_slots (Some sched) d ty st = Some (Inr slots, st')"
    and wd: "get_weekday d = Inr wd" and wh: "working_hours sched wd = Some h"
  shows "\<exists>dur day_start day_end existing n.
           APPOINTMENT_DURATIONS_MIN ty = Some dur \<and> 0 < dur \<and>
           parse_time d (hours_start h) = Inr day_start \<and>
           parse_time d (hours_end h) = Inr day_end \<and>
           collect_existing_bookings sched d st = (Inr existing, st) \<and> st' = st \<and>
           slots = map (\<lambda>k. slot_at existing dur (day_start + k * dur)) [0..<n] \<and>
           on_grid dur day_end day_start n \<and>
           (\<forall>x. day_start \<le> x \<and> x \<le> day_end \<longrightarrow> parse_time d (format_time x) = Inr x)"
proof -
  from gen wd wh obtain dur day_start day_end existing where
    dur: "APPOINTMENT_DURATIONS_MIN ty = Some dur"
    and ds: "parse_time d (hours_start h) = Inr day_start"
    and de: "parse_time d (hours_end h) = Inr day_end"
    and col: "collect_existing_bookings sched d st = (Inr existing, st)"
    and loop: "slots_loop existing dur day_end day_start [] = Some (Inr slots)"
    by (auto simp: generate_slots_def load_schedule_def split: sum.splits option.splits prod.splits
        dest: collect_Inr)
  have pos: "0 < dur" using dur by (rule durations_pos)
  from slots_loop_char [OF pos loop] obtain n where
    s: "slots = map (\<lambda>k. slot_at existing dur (day_start + k * dur)) [0..<n]"
    and g: "on_grid dur day_end day_start n"
    unfolding on_grid_def by auto
  from wd obtain ordinal where o: "strptime_date d = Some ordinal"
    by (auto dest: get_weekday_date)
  note b1 = parse_time_same_day [OF o ds] and b2 = parse_time_same_day [OF o de]
  have rt: "parse_time d (format_time x) = Inr x" if "day_start \<le> x \<and> x \<le> day_end" for x
  proof -
    have "ordinal * 1440 \<le> x" using b1 that by simp
    moreover have "x < ordinal * 1440 + 1440" using that b2 by arith
    ultimately show ?thesis
      by (simp add: parse_time_format_time [OF o] same_day_mod)
  qed
  have st: "st' = st" using gen by (rule generate_slots_store)
  show ?thesis using dur pos ds de col s g rt st by blast
qed

lemma generate_slots_intro:
  assumes wd: "get_weekday d = Inr wd" and wh: "working_hours sched wd = Some h"
    and dur: "APPOINTMENT_DURATIONS_MIN ty = Some dur"
    and ds: "parse_time d (hours_start h) = Inr day_start"
    and de: "parse_time d (hours_end h) = Inr day_end"
    and col: "collect_existing_bookings sched d st = (Inr existing, st)"
    and g: "on_grid dur day_end day_start n"
  shows "generate_slots (Some sched) d ty st =
           Some (Inr (map (\<lambda>k. slot_at existing dur (day_start + k * dur)) [0..<n]), st)"
proof -
  have "slots_loop existing dur day_end day_start [] =
          Some (Inr ([] @ map (\<lambda>k. slot_at existing dur (day_start + k * dur)) [0..<n]))"
    using g unfolding on_grid_def by (intro slots_loop_intro) auto
  then show ?thesis
    using wd wh dur ds de col by (simp add: generate_slots_def load_schedule_def)
qed

lemma generate_slots_closed:
  assumes "get_weekday d = Inr wd" and "working_hours sched wd = None"
  shows "generate_slots (Some sched) d ty st = Some (Inr [], st)"
  using assms by (simp add: generate_slots_def load_schedule_def)

section \<open>Collecting the committed intervals\<close>

lemma runtime_loop_acc:
  "runtime_loop d xs acc =
     (case runtime_loop d xs [] of Inl e \<Rightarrow> Inl e | Inr l \<Rightarrow> Inr (acc @ l))"
proof (induction xs arbitrary: acc)
  case Nil
  show ?case by simp
next
  case (Cons x xs)
  obtain s e where x: "x = (s, e)" by (cases x)
  show ?case
  proof (cases "parse_time d s")
    case (Inl err)
    then show ?thesis by (simp add: x)
  next
    case a: (Inr a)
    show ?thesis
    proof (cases "parse_time d e")
      case (Inl err)
      then show ?thesis by (simp add: x a)
    next
      case b: (Inr b)
      have 1: "runtime_loop d (x # xs) acc = runtime_loop d xs (acc @ [(a, b)])"
        by (simp add: x a b)
      have 2: "runtime_loop d (x # xs) [] = runtime_loop d xs [(a, b)]"
        by (simp add: x a b)
      show ?thesis
        unfolding 1 2 Cons.IH [of "acc @ [(a, b)]"] Cons.IH [of "[(a, b)]"]
        by (simp split: sum.splits)
    qed
  qed
qed

lemma runtime_loop_snoc:
  assumes "runtime_loop d xs [] = Inr l" and "parse_time d s = Inr a" and "parse_time d e = Inr b"
  shows "runtime_loop d (xs @ [(s, e)]) [] = Inr (l @ [(a, b)])"
  using assms(1)
proof (induction xs arbitrary: l)
  case Nil
  then show ?case using assms(2,3) by simp
next
  case (Cons x xs)
  obtain s' e' where x: "x = (s', e')" by (cases x)
  from Cons.prems obtain a' b' where p: "parse_time d s' = Inr a'" "parse_time d e' = Inr b'"
    and r: "runtime_loop d xs [(a', b')] = Inr l"
    by (auto simp: x split: sum.splits)
  from r obtain l' where l': "runtime_loop d xs [] = Inr l'" and l: "l = (a', b') # l'"
    by (subst (asm) runtime_loop_acc) (auto split: sum.splits)
  have "runtime_loop d ((x # xs) @ [(s, e)]) [] = runtime_loop d (xs @ [(s, e)]) [(a', b')]"
    by (simp add: x p)
  also have "\<dots> = Inr ([(a', b')] @ (l' @ [(a, b)]))"
    by (subst runtime_loop_acc) (simp add: Cons.IH [OF l'])
  finally show ?case using l by simp
qed

lemma runtime_loop_acc_Inr:
  "runtime_loop d xs acc = Inr r \<longleftrightarrow> (\<exists>l. runtime_loop d xs [] = Inr l \<and> r = acc @ l)"
  by (subst runtime_loop_acc) (auto split: sum.splits)

lemma collect_parts:
  "collect_existing_bookings sched d st = (Inr existing, st') \<longleftrightarrow>
     st' = st \<and>
     (\<exists>config runtime. file_loop d (existing_bookings sched) [] = Inr config \<and>
        runtime_loop d (fst (dict_get st d [])) [] = Inr runtime \<and> existing = config @ runtime)"
proof (cases "file_loop d (existing_bookings sched) []")
  case (Inl e)
  then show ?thesis by (auto simp: collect_existing_bookings_def)
next
  case (Inr config)
  have s: "snd (dict_get st d []) = st" by (simp add: dict_get_def split: option.splits)
  have "collect_existing_bookings sched d st = (runtime_loop d (fst (dict_get st d [])) config, st)"
    using Inr by (simp add: collect_existing_bookings_def dict_get_def split: option.splits)
  then show ?thesis
    using Inr runtime_loop_acc_Inr [of d "fst (dict_get st d [])" config existing] by auto
qed

lemma generate_slots_window:
  assumes "generate_slots (Some sched) d ty st = Some (Inr slots, st')" and "slots \<noteq> []"
  shows "\<exists>wd h. get_weekday d = Inr wd \<and> working_hours sched wd = Some h"
  using assms
  by (auto simp: generate_slots_def load_schedule_def split: sum.splits option.splits)

section \<open>The slot map\<close>

lemma put_slot_apply: "put_slot x m k = (if k = slot_key x then Some x else m k)"
  by (simp add: put_slot_def)

lemma fold_upd_notin:
  "k \<notin> slot_key ` set xs \<Longrightarrow> fold put_slot xs m k = m k"
  by (induction xs arbitrary: m) (auto simp: put_slot_apply)

lemma fold_upd_Some:
  "fold put_slot xs m k = Some s \<Longrightarrow>
     (s \<in> set xs \<and> slot_key s = k) \<or> m k = Some s"
proof (induction xs arbitrary: m)
  case Nil
  then show ?case by simp
next
  case (Cons x xs)
  from Cons.IH [of "put_slot x m"] Cons.prems show ?case
    by (auto simp: put_slot_apply split: if_splits)
qed

lemma fold_upd_distinct:
  "distinct (map slot_key xs) \<Longrightarrow> s \<in> set xs \<Longrightarrow>
     fold put_slot xs m (slot_key s) = Some s"
proof (induction xs arbitrary: m)
  case Nil
  then show ?case by simp
next
  case (Cons x xs)
  show ?case
  proof (cases "s \<in> set xs")
    case True
    with Cons show ?thesis by simp
  next
    case False
    with Cons.prems have sx: "s = x" and nk: "slot_key x \<notin> slot_key ` set xs" by auto
    have "fold put_slot xs (put_slot x m) (slot_key x) = put_slot x m (slot_key x)"
      using nk by (rule fold_upd_notin)
    also have "\<dots> = Some x" by (simp add: put_slot_apply)
    finally show ?thesis using sx by simp
  qed
qed

lemma fold_upd_in:
  "k \<in> slot_key ` set xs \<Longrightarrow> fold put_slot xs m k \<noteq> None"
proof (induction xs arbitrary: m)
  case Nil
  then show ?case by simp
next
  case (Cons x xs)
  show ?case
  proof (cases "k \<in> slot_key ` set xs")
    case True
    then show ?thesis using Cons.IH by simp
  next
    case False
    with Cons.prems have k: "k = slot_key x" by auto
    have "fold put_slot xs (put_slot x m) k = put_slot x m k"
      using False by (rule fold_upd_notin)
    also have "\<dots> = Some x" by (simp add: put_slot_apply k)
    finally show ?thesis by simp
  qed
qed

lemma slot_map_fold: "slot_map slots = fold put_slot slots Map.empty"
proof -
  have "(\<lambda>s m. m((start_time s, end_time s) \<mapsto> s)) = put_slot"
    by (intro ext) (simp add: put_slot_def slot_key_def)
  then show ?thesis by (simp add: slot_map_def)
qed

lemma slot_map_Some: "slot_map slots k = Some s \<Longrightarrow> s \<in> set slots \<and> slot_key s = k"
  unfolding slot_map_fold by (drule fold_upd_Some) simp

lemma slot_map_distinct:
  "distinct (map slot_key slots) \<Longrightarrow> s \<in> set slots \<Longrightarrow> slot_map slots (slot_key s) = Some s"
  unfolding slot_map_fold by (rule fold_upd_distinct)

lemma slot_map_None: "slot_map slots k = None \<longleftrightarrow> k \<notin> slot_key ` set slots"
  unfolding slot_map_fold
  using fold_upd_in [of k slots Map.empty] fold_upd_notin [of k slots Map.empty] by auto

lemma grid_keys_distinct:
  assumes pos: "0 < dur"
    and rt: "\<forall>x. day_start \<le> x \<and> x \<le> day_end \<longrightarrow> parse_time d (format_time x) = Inr x"
    and g: "on_grid dur day_end day_start n"
  shows "distinct (map slot_key (map (\<lambda>k. slot_at existing dur (day_start + k * dur)) [0..<n]))"
proof -
  have "inj_on (\<lambda>k. slot_key (slot_at existing dur (day_start + k * dur))) (set [0..<n])"
  proof (rule inj_onI)
    fix i j assume i: "i \<in> set [0..<n]" and j: "j \<in> set [0..<n]"
      and e: "slot_key (slot_at existing dur (day_start + i * dur)) =
              slot_key (slot_at existing dur (day_start + j * dur))"
    from g i have "day_start + i * dur + dur \<le> day_end" unfolding on_grid_def by simp
    with rt have pi: "parse_time d (format_time (day_start + i * dur)) = Inr (day_start + i * dur)"
      by simp
    from g j have "day_start + j * dur + dur \<le> day_end" unfolding on_grid_def by simp
    with rt have pj: "parse_time d (format_time (day_start + j * dur)) = Inr (day_start + j * dur)"
      by simp
    from e have fe: "format_time (day_start + i * dur) = format_time (day_start + j * dur)"
      by (simp add: slot_key_def slot_at_def)
    have "(Inr (day_start + i * dur) :: error + nat) = parse_time d (format_time (day_start + i * dur))"
      by (simp only: pi)
    also have "\<dots> = parse_time d (format_time (day_start + j * dur))"
      by (simp only: fe)
    also have "\<dots> = Inr (day_start + j * dur)"
      by (rule pj)
    finally have "i * dur = j * dur" by simp
    then show "i = j" using pos by simp
  qed
  then show ?thesis by (simp add: distinct_map comp_def)
qed

section \<open>Booking\<close>

lemma dict_get_entries: "dict_get store d [] = (runtime_entries store d, store)"
  by (simp add: dict_get_def runtime_entries_def split: option.splits)

lemma book_eval:
  assumes "APPOINTMENT_DURATIONS_MIN (req_appointment_type req) = Some dur"
    and "parse_time (req_date req) (req_start_time req) = Inr start_dt"
    and "add_minutes start_dt dur = Inr end_dt"
    and "generate_slots f (req_date req) (req_appointment_type req) st = Some (Inr slots, st1)"
  shows "book_appointment f fresh req st =
     (case slot_map slots (req_start_time req, strftime_HM end_dt) of
        None \<Rightarrow> Some (Inl (HTTPException 400 ''Requested time is outside working hours''), st)
      | Some s \<Rightarrow>
          if \<not> available s
          then Some (Inl (HTTPException 409 ''Requested time is no longer available''), st)
          else Some (Inr (confirmation fresh req (strftime_HM end_dt)),
                     st(req_date req \<mapsto>
                        runtime_entries st (req_date req) @ [(req_start_time req, strftime_HM end_dt)])))"
proof -
  have "st1 = st" using assms(4) by (rule generate_slots_store)
  then show ?thesis
    using assms
    by (simp add: book_appointment_def Let_def dict_setdefault_def runtime_entries_def
        confirmation_def split: option.splits)
qed

lemma book_raises:
  assumes "generate_slots f (req_date req) (req_appointment_type req) st = Some (Inl e, st1)"
  shows "\<exists>e'. book_appointment f fresh req st = Some (Inl e', st)"
proof -
  have "st1 = st" using assms by (rule generate_slots_store)
  then show ?thesis
    using assms
    by (simp add: book_appointment_def split: option.splits sum.splits)
qed

section \<open>The store after a commit\<close>

lemma collect_after_commit:
  assumes col: "collect_existing_bookings sched d st = (Inr existing, st)"
    and pa: "parse_time d a = Inr x" and pb: "parse_time d b = Inr y"
  shows "collect_existing_bookings sched d (st(d \<mapsto> runtime_entries st d @ [(a, b)])) =
           (Inr (existing @ [(x, y)]), st(d \<mapsto> runtime_entries st d @ [(a, b)]))"
proof -
  from col obtain config runtime where
    c: "file_loop d (existing_bookings sched) [] = Inr config"
    and r: "runtime_loop d (runtime_entries st d) [] = Inr runtime"
    and e: "existing = config @ runtime"
    unfolding collect_parts by (auto simp: dict_get_entries)
  have "runtime_loop d (runtime_entries st d @ [(a, b)]) [] = Inr (runtime @ [(x, y)])"
    using r pa pb by (rule runtime_loop_snoc)
  then show ?thesis
    unfolding collect_parts using c e by (simp add: dict_get_entries runtime_entries_def)
qed


lemma slot_at_key:
  "slot_key (slot_at existing dur c) = (format_time c, format_time (c + dur))"
  by (simp add: slot_key_def slot_at_def)

section \<open>Intervals that do not overlap\<close>







section \<open>A booking keeps the intervals of a date apart\<close>



section \<open>What is recorded for a date\<close>

lemma file_loop_pairs:
  "file_loop d es acc =
     runtime_loop d (map (\<lambda>entry. (entry_start_time entry, entry_end_time entry))
                       (filter (\<lambda>entry. entry_date entry = d) es)) acc"
  by (induction es arbitrary: acc) (auto split: sum.splits)

lemma interval_at_Some:
  "interval_at d (s, e) = Some (a, b) \<longleftrightarrow> parse_time d s = Inr a \<and> parse_time d e = Inr b"
  by (auto simp: interval_at_def split: sum.splits)

lemma runtime_loop_map:
  "runtime_loop d xs [] = Inr l \<longleftrightarrow> map (interval_at d) xs = map Some l"
proof (induction xs arbitrary: l)
  case Nil
  show ?case by auto
next
  case (Cons x xs)
  obtain s e where x: "x = (s, e)" by (cases x)
  show ?case
  proof (cases "interval_at d (s, e)")
    case None
    then have "runtime_loop d (x # xs) [] \<noteq> Inr l"
      by (auto simp: x interval_at_def split: sum.splits)
    moreover have "map (interval_at d) (x # xs) \<noteq> map Some l"
      using None by (cases l) (auto simp: x)
    ultimately show ?thesis by simp
  next
    case (Some p)
    obtain a b where p: "p = (a, b)" by (cases p)
    from Some have pa: "parse_time d s = Inr a" and pb: "parse_time d e = Inr b"
      by (simp_all add: p interval_at_Some)
    have "runtime_loop d (x # xs) [] = runtime_loop d xs [(a, b)]"
      by (simp add: x pa pb)
    then have "runtime_loop d (x # xs) [] = Inr l \<longleftrightarrow>
                 (\<exists>l'. runtime_loop d xs [] = Inr l' \<and> l = (a, b) # l')"
      by (simp add: runtime_loop_acc_Inr [of d xs "[(a, b)]"])
    also have "\<dots> \<longleftrightarrow> (\<exists>l'. map (interval_at d) xs = map Some l' \<and> l = (a, b) # l')"
      by (simp add: Cons.IH)
    also have "\<dots> \<longleftrightarrow> map (interval_at d) (x # xs) = map Some l"
      using Some by (cases l) (auto simp: x p)
    finally show ?thesis .
  qed
qed

lemma collect_entries:
  "fst (collect_existing_bookings sched d st) = Inr l \<longleftrightarrow>
     map (interval_at d) (entries_for sched st d) = map Some l"
proof -
  let ?f = "map (\<lambda>entry. (entry_start_time entry, entry_end_time entry))
              (filter (\<lambda>entry. entry_date entry = d) (existing_bookings sched))"
  have "fst (collect_existing_bookings sched d st) = Inr l \<longleftrightarrow>
          collect_existing_bookings sched d st = (Inr l, st)"
    using collect_store [of sched d st] by (cases "collect_existing_bookings sched d st") auto
  also have "\<dots> \<longleftrightarrow> (\<exists>config runtime. runtime_loop d ?f [] = Inr config \<and>
        runtime_loop d (runtime_entries st d) [] = Inr runtime \<and> l = config @ runtime)"
    by (simp add: collect_parts file_loop_pairs dict_get_entries)
  also have "\<dots> \<longleftrightarrow> (\<exists>config runtime. map (interval_at d) ?f = map Some config \<and>
        map (interval_at d) (runtime_entries st d) = map Some runtime \<and> l = config @ runtime)"
    by (simp add: runtime_loop_map)
  also have "\<dots> \<longleftrightarrow> map (interval_at d) (?f @ runtime_entries st d) = map Some l"
    by (auto simp: append_eq_map_conv)
  finally show ?thesis
    by (simp add: entries_for_def runtime_entries_def)
qed















lemma day_disjointD:
  assumes "day_disjoint sched st day"
    and "calendar_date d1 = Some day" and "calendar_date d2 = Some day"
    and "i1 < length (entries_for sched st d1)" and "i2 < length (entries_for sched st d2)"
    and "(d1, i1) \<noteq> (d2, i2)"
    and "interval_at d1 (entries_for sched st d1 ! i1) = Some x"
    and "interval_at d2 (entries_for sched st d2 ! i2) = Some y"
  shows "\<not> overlaps (fst x) (snd x) (fst y) (snd y)"
  using assms unfolding day_disjoint_def by blast

section \<open>Evaluation on concrete inputs\<close>

lemmas eval_defs =
  strptime_datetime_def strptime_date_def match_ymd_def match_HM_def is_digit_def cls_def
  digit_val_def check_date_def is_space_def days_in_month_def DAYS_IN_MONTH_def ymd2ord_def
  days_before_month_def days_before_year_def is_leap_def strftime_HM_def two_digits_def
  digit_char_def parse_time_def format_time_def get_weekday_def load_schedule_def
  APPOINTMENT_DURATIONS_MIN_def collect_existing_bookings_def dict_get_def dict_setdefault_def
  add_minutes_def MAXORDINAL_def overlaps_def example_request_def example_fresh_def
  example_patient_def

lemmas schedule_defs =
  example_schedule_def busy_schedule_def friday_schedule_def overlapping_schedule_def

lemma monday: "get_weekday ''2024-01-15'' = Inr ''monday''"
  by (simp add: eval_defs)

lemma sunday: "get_weekday ''2024-01-14'' = Inr ''sunday''"
  by (simp add: eval_defs)

lemma example_slots:
  "generate_slots (Some example_schedule) ''2024-01-15'' ''consultation'' Map.empty =
     Some (Inr two_slots, Map.empty)"
  by (simp add: generate_slots_def eval_defs schedule_defs slots_loop.simps two_slots_def)

lemma busy_slots:
  "generate_slots (Some busy_schedule) ''2024-01-15'' ''consultation'' Map.empty =
     Some (Inr [\<lparr>start_time = ''09:00'', end_time = ''09:30'', available = True\<rparr>,
                \<lparr>start_time = ''09:30'', end_time = ''10:00'', available = False\<rparr>], Map.empty)"
  by (simp add: generate_slots_def eval_defs schedule_defs slots_loop.simps)

lemma example_book:
  "book_appointment (Some example_schedule) example_fresh
       (example_request ''consultation'' ''2024-01-15'' ''09:00'') Map.empty
     = Some (Inr (confirmation example_fresh
                    (example_request ''consultation'' ''2024-01-15'' ''09:00'') ''09:30''),
             [''2024-01-15'' \<mapsto> [(''09:00'', ''09:30'')]])"
  by (simp add: book_appointment_def example_slots two_slots_def slot_map_def confirmation_def
      eval_defs)

lemma example_misaligned:
  "book_appointment (Some example_schedule) example_fresh
       (example_request ''consultation'' ''2024-01-15'' ''09:10'') Map.empty
     = Some (Inl (HTTPException 400 ''Requested time is outside working hours''), Map.empty)"
  by (simp add: book_appointment_def example_slots two_slots_def slot_map_def eval_defs)

lemma example_slots_after:
  "generate_slots (Some example_schedule) ''2024-01-15'' ''consultation''
       [''2024-01-15'' \<mapsto> [(''09:00'', ''09:30'')]] =
     Some (Inr [\<lparr>start_time = ''09:00'', end_time = ''09:30'', available = False\<rparr>,
                \<lparr>start_time = ''09:30'', end_time = ''10:00'', available = True\<rparr>],
           [''2024-01-15'' \<mapsto> [(''09:00'', ''09:30'')]])"
  by (simp add: generate_slots_def eval_defs schedule_defs slots_loop.simps)

lemma example_book_again:
  "book_appointment (Some example_schedule) fresh
       (example_request ''consultation'' ''2024-01-15'' ''09:00'')
       [''2024-01-15'' \<mapsto> [(''09:00'', ''09:30'')]]
     = Some (Inl (HTTPException 409 ''Requested time is no longer available''),
             [''2024-01-15'' \<mapsto> [(''09:00'', ''09:30'')]])"
  by (simp add: book_appointment_def example_slots_after slot_map_def eval_defs)

lemma last_day_slots:
  "generate_slots (Some friday_schedule) ''9999-12-31'' ''special'' Map.empty
     = Some (Inr [\<lparr>start_time = ''09:00'', end_time = ''10:00'', available = True\<rparr>], Map.empty)"
  by (simp add: generate_slots_def eval_defs schedule_defs slots_loop.simps)

lemma last_day_book:
  "book_appointment (Some friday_schedule) example_fresh
       (example_request ''special'' ''9999-12-31'' ''23:30'') Map.empty
     = Some (Inl OverflowError, Map.empty)"
  by (simp add: book_appointment_def eval_defs)

lemma example_unpadded:
  "book_appointment (Some example_schedule) example_fresh
       (example_request ''consultation'' ''2024-01-15'' ''9:00'') Map.empty
     = Some (Inl (HTTPException 400 ''Requested time is outside working hours''), Map.empty)"
  by (simp add: book_appointment_def example_slots two_slots_def slot_map_def eval_defs)

lemma example_slots_other_spelling:
  "generate_slots (Some example_schedule) ''2024-1-15'' ''consultation''
       [''2024-01-15'' \<mapsto> [(''09:00'', ''09:30'')]] =
     Some (Inr two_slots, [''2024-01-15'' \<mapsto> [(''09:00'', ''09:30'')]])"
  by (simp add: generate_slots_def eval_defs schedule_defs slots_loop.simps two_slots_def)

lemma trailing_blank_book:
  "book_appointment (Some example_schedule) example_fresh
       (example_request ''consultation'' ''2024-01-15 '' ''09:10'') Map.empty
     = Some (Inl ValueError, Map.empty)"
  by (simp add: book_appointment_def generate_slots_def eval_defs)

section \<open>No double booking\<close>




text \<open>
  The theorem leaves out dates written otherwise. \<open>book_appointment\<close> takes the date of a
  request as it comes, where the availability query accepts \<^verbatim>\<open>YYYY-MM-DD\<close> only, and the
  store and the bookings of the file are looked up by the date string. The date
  \<^verbatim>\<open>2024-1-15\<close> is the same calendar date as \<^verbatim>\<open>2024-01-15\<close> and another key: after 09:00
  has been booked for \<^verbatim>\<open>2024-01-15\<close>, the same time is booked again for \<^verbatim>\<open>2024-1-15\<close>, and
  two intervals recorded for the one date overlap.
\<close>

lemma two_spellings_of_a_day:
  "parse_time ''2024-1-15'' ''09:00'' = parse_time ''2024-01-15'' ''09:00'' \<and>
   book_appointment (Some example_schedule) example_fresh
       (example_request ''consultation'' ''2024-1-15'' ''09:00'')
       [''2024-01-15'' \<mapsto> [(''09:00'', ''09:30'')]]
     = Some (Inr (confirmation example_fresh
                    (example_request ''consultation'' ''2024-1-15'' ''09:00'') ''09:30''),
             [''2024-01-15'' \<mapsto> [(''09:00'', ''09:30'')],
              ''2024-1-15'' \<mapsto> [(''09:00'', ''09:30'')]])"
proof -
  have 1: "parse_time ''2024-1-15'' ''09:00'' = parse_time ''2024-01-15'' ''09:00''"
    by (simp add: eval_defs)
  have 2: "book_appointment (Some example_schedule) example_fresh
       (example_request ''consultation'' ''2024-1-15'' ''09:00'')
       [''2024-01-15'' \<mapsto> [(''09:00'', ''09:30'')]]
     = Some (Inr (confirmation example_fresh
                    (example_request ''consultation'' ''2024-1-15'' ''09:00'') ''09:30''),
             [''2024-01-15'' \<mapsto> [(''09:00'', ''09:30'')],
              ''2024-1-15'' \<mapsto> [(''09:00'', ''09:30'')]])"
    by (simp add: book_appointment_def example_slots_other_spelling two_slots_def slot_map_def
        confirmation_def eval_defs)
  from 1 2 show ?thesis by (rule conjI)
qed

lemma two_spellings_overlap:
  "\<not> day_disjoint example_schedule
        [''2024-01-15'' \<mapsto> [(''09:00'', ''09:30'')], ''2024-1-15'' \<mapsto> [(''09:00'', ''09:30'')]]
        (2024, 1, 15)"
proof
  let ?st = "[''2024-01-15'' \<mapsto> [(''09:00'', ''09:30'')], ''2024-1-15'' \<mapsto> [(''09:00'', ''09:30'')]]"
  assume d: "day_disjoint example_schedule ?st (2024, 1, 15)"
  have 1: "calendar_date ''2024-01-15'' = Some (2024, 1, 15)"
    by (simp add: calendar_date_def eval_defs)
  have 2: "calendar_date ''2024-1-15'' = Some (2024, 1, 15)"
    by (simp add: calendar_date_def eval_defs)
  have 3: "entries_for example_schedule ?st ''2024-01-15'' = [(''09:00'', ''09:30'')]"
    by (simp add: entries_for_def example_schedule_def)
  have 4: "entries_for example_schedule ?st ''2024-1-15'' = [(''09:00'', ''09:30'')]"
    by (simp add: entries_for_def example_schedule_def)
  have 5: "interval_at ''2024-01-15'' (''09:00'', ''09:30'') = Some (1064016540, 1064016570)"
    by (simp add: interval_at_def eval_defs)
  have 6: "interval_at ''2024-1-15'' (''09:00'', ''09:30'') = Some (1064016540, 1064016570)"
    by (simp add: interval_at_def eval_defs)
  from day_disjointD [OF d 1 2, of 0 0 "(1064016540, 1064016570)" "(1064016540, 1064016570)"]
  show False using 3 4 5 6 by (simp add: overlaps_def)
qed

section \<open>Availability flags\<close>

text \<open>
  Claim C2. Every slot that generation returns for a date should be unavailable exactly when
  some interval among the bookings of the schedule file and the runtime bookings for that
  date overlaps it. The code breaks this for a date that is not written as it was when it
  was booked. Below, 09:00 to 09:30 is booked for \<^verbatim>\<open>2024-01-15\<close> by a book operation on the
  empty store. Slot generation for \<^verbatim>\<open>2024-1-15\<close>, the same calendar date, as
  \<open>book_appointment\<close> calls it for a request with that date, returns the slot 09:00 to
  09:30 available, although the committed interval is the slot's own and overlaps it.
\<close>

theorem flags_miss_other_spelling:
  "book_all (Some example_schedule)
     [(example_fresh, example_request ''consultation'' ''2024-01-15'' ''09:00'')] Map.empty
     = Some [''2024-01-15'' \<mapsto> [(''09:00'', ''09:30'')]] \<and>
   calendar_date ''2024-01-15'' = Some (2024, 1, 15) \<and>
   calendar_date ''2024-1-15'' = Some (2024, 1, 15) \<and>
   interval_at ''2024-01-15'' (''09:00'', ''09:30'') = Some (1064016540, 1064016570) \<and>
   generate_slots (Some example_schedule) ''2024-1-15'' ''consultation''
       [''2024-01-15'' \<mapsto> [(''09:00'', ''09:30'')]]
     = Some (Inr two_slots, [''2024-01-15'' \<mapsto> [(''09:00'', ''09:30'')]]) \<and>
   available (two_slots ! 0) \<and>
   parse_time ''2024-1-15'' (start_time (two_slots ! 0)) = Inr 1064016540 \<and>
   parse_time ''2024-1-15'' (end_time (two_slots ! 0)) = Inr 1064016570 \<and>
   overlaps 1064016540 1064016570 1064016540 1064016570"
proof -
  have 1: "book_all (Some example_schedule)
     [(example_fresh, example_request ''consultation'' ''2024-01-15'' ''09:00'')] Map.empty
     = Some [''2024-01-15'' \<mapsto> [(''09:00'', ''09:30'')]]"
    by (simp add: example_book)
  have 2: "calendar_date ''2024-01-15'' = Some (2024, 1, 15)"
    by (simp add: calendar_date_def eval_defs)
  have 3: "calendar_date ''2024-1-15'' = Some (2024, 1, 15)"
    by (simp add: calendar_date_def eval_defs)
  have 4: "interval_at ''2024-01-15'' (''09:00'', ''09:30'') = Some (1064016540, 1064016570)"
    by (simp add: interval_at_def eval_defs)
  have 5: "available (two_slots ! 0)"
    by (simp add: two_slots_def)
  have 6: "parse_time ''2024-1-15'' (start_time (two_slots ! 0)) = Inr 1064016540"
    by (simp add: two_slots_def eval_defs)
  have 7: "parse_time ''2024-1-15'' (end_time (two_slots ! 0)) = Inr 1064016570"
    by (simp add: two_slots_def eval_defs)
  have 8: "overlaps 1064016540 1064016570 1064016540 1064016570"
    by (simp add: overlaps_def)
  show ?thesis
    apply (intro conjI)
            apply (rule 1)
           apply (rule 2)
          apply (rule 3)
         apply (rule 4)
        apply (rule example_slots_other_spelling)
       apply (rule 5)
      apply (rule 6)
     apply (rule 7)
    apply (rule 8)
    done
qed

text \<open>
  What the flag does reflect is what is recorded under the date string that generation is
  given: the bookings of the file with that date string and the entries of the store under
  that key.
\<close>

lemma slot_flag_per_date_string:
  assumes "generate_slots (Some schedule_data) date_str appointment_type store = Some (Inr slots, store')"
    and "s \<in> set slots"
  shows "\<exists>a b.
           parse_time date_str (start_time s) = Inr a \<and>
           parse_time date_str (end_time s) = Inr b \<and>
           (\<not> available s \<longleftrightarrow>
              (\<exists>p \<in> set (entries_for schedule_data store date_str).
                 \<exists>x y. interval_at date_str p = Some (x, y) \<and> a < y \<and> x < b))"
proof -
  from assms have "slots \<noteq> []" by auto
  from generate_slots_window [OF assms(1) this] obtain wd h where
    wd: "get_weekday date_str = Inr wd" and wh: "working_hours schedule_data wd = Some h"
    by blast
  from generate_slots_grid [OF assms(1) wd wh] obtain dur day_start day_end existing n where
    col: "collect_existing_bookings schedule_data date_str store = (Inr existing, store)"
    and sl: "slots = map (\<lambda>k. slot_at existing dur (day_start + k * dur)) [0..<n]"
    and g: "on_grid dur day_end day_start n"
    and rt: "\<forall>x. day_start \<le> x \<and> x \<le> day_end \<longrightarrow> parse_time date_str (format_time x) = Inr x"
    by blast
  from col have "fst (collect_existing_bookings schedule_data date_str store) = Inr existing"
    by simp
  then have e: "map (interval_at date_str) (entries_for schedule_data store date_str) = map Some existing"
    by (simp only: collect_entries)
  have "set (map (interval_at date_str) (entries_for schedule_data store date_str)) = set (map Some existing)"
    by (simp only: e)
  then have img: "interval_at date_str ` set (entries_for schedule_data store date_str) = Some ` set existing"
    by simp
  have mem: "(x, y) \<in> set existing \<longleftrightarrow>
               (\<exists>p \<in> set (entries_for schedule_data store date_str). interval_at date_str p = Some (x, y))"
    for x y
  proof -
    have "(x, y) \<in> set existing \<longleftrightarrow> Some (x, y) \<in> Some ` set existing" by auto
    also have "\<dots> \<longleftrightarrow> Some (x, y) \<in> interval_at date_str ` set (entries_for schedule_data store date_str)"
      by (simp only: img)
    also have "\<dots> \<longleftrightarrow> (\<exists>p \<in> set (entries_for schedule_data store date_str). interval_at date_str p = Some (x, y))"
      unfolding image_iff by (rule bex_cong) auto
    finally show ?thesis .
  qed
  from assms(2) sl obtain k where k: "k < n" and s: "s = slot_at existing dur (day_start + k * dur)"
    by auto
  define a where "a = day_start + k * dur"
  from g k have le: "a + dur \<le> day_end" unfolding on_grid_def a_def by blast
  have pa: "parse_time date_str (start_time s) = Inr a"
    using rt le by (simp add: s slot_at_def a_def)
  have pb: "parse_time date_str (end_time s) = Inr (a + dur)"
    using rt le by (simp add: s slot_at_def a_def)
  have "\<not> available s \<longleftrightarrow> (\<exists>(x, y) \<in> set existing. a < y \<and> x < a + dur)"
    by (simp add: s slot_at_def a_def list_ex_iff overlaps_def)
  also have "\<dots> \<longleftrightarrow> (\<exists>x y. (x, y) \<in> set existing \<and> a < y \<and> x < a + dur)"
    by auto
  also have "\<dots> \<longleftrightarrow> (\<exists>p \<in> set (entries_for schedule_data store date_str).
                 \<exists>x y. interval_at date_str p = Some (x, y) \<and> a < y \<and> x < a + dur)"
    unfolding mem by blast
  finally have av: "\<not> available s \<longleftrightarrow> (\<exists>p \<in> set (entries_for schedule_data store date_str).
                 \<exists>x y. interval_at date_str p = Some (x, y) \<and> a < y \<and> x < a + dur)" .
  from pa pb av show ?thesis by blast
qed

section \<open>The slot grid\<close>

text \<open>
  Claim C3. For a date whose weekday has working hours and a known appointment type, the
  slots that generation returns are a grid in ascending order of start time: the first slot
  starts at the opening time, every slot is as long as the duration of the type, every slot
  starts where the one before ends, no two slots overlap, no slot ends after the closing
  time, and the slot after the last one would end after the closing time. Start and end of
  a slot are its two strings read back with \<open>parse_time\<close>.
\<close>

theorem slots_form_grid:
  assumes "generate_slots (Some schedule_data) date_str appointment_type store = Some (Inr slots, store')"
    and "get_weekday date_str = Inr weekday"
    and "working_hours schedule_data weekday = Some hours"
  shows "\<exists>duration_min day_start day_end starts ends.
      APPOINTMENT_DURATIONS_MIN appointment_type = Some duration_min \<and>
      parse_time date_str (hours_start hours) = Inr day_start \<and>
      parse_time date_str (hours_end hours) = Inr day_end \<and>
      length starts = length slots \<and> length ends = length slots \<and>
      (\<forall>i<length slots.
         parse_time date_str (start_time (slots ! i)) = Inr (starts ! i) \<and>
         parse_time date_str (end_time (slots ! i)) = Inr (ends ! i)) \<and>
      (slots \<noteq> [] \<longrightarrow> starts ! 0 = day_start) \<and>
      (\<forall>i<length slots. ends ! i = starts ! i + duration_min) \<and>
      (\<forall>i. Suc i < length slots \<longrightarrow> starts ! Suc i = ends ! i) \<and>
      (\<forall>i j. i < j \<and> j < length slots \<longrightarrow>
         starts ! i < starts ! j \<and> \<not> overlaps (starts ! i) (ends ! i) (starts ! j) (ends ! j)) \<and>
      (\<forall>i<length slots. ends ! i \<le> day_end) \<and>
      day_end < day_start + length slots * duration_min + duration_min"
proof -
  from generate_slots_grid [OF assms] obtain dur day_start day_end existing n where
    dur: "APPOINTMENT_DURATIONS_MIN appointment_type = Some dur" and pos: "0 < dur"
    and ds: "parse_time date_str (hours_start hours) = Inr day_start"
    and de: "parse_time date_str (hours_end hours) = Inr day_end"
    and sl: "slots = map (\<lambda>k. slot_at existing dur (day_start + k * dur)) [0..<n]"
    and g: "on_grid dur day_end day_start n"
    and rt: "\<forall>x. day_start \<le> x \<and> x \<le> day_end \<longrightarrow> parse_time date_str (format_time x) = Inr x"
    by blast
  define starts where "starts = map (\<lambda>k. day_start + k * dur) [0..<n]"
  define ends where "ends = map (\<lambda>k. day_start + k * dur + dur) [0..<n]"
  have len: "length slots = n" by (simp add: sl)
  have le: "day_start + k * dur + dur \<le> day_end" if "k < n" for k
    using g that unfolding on_grid_def by blast
  have 1: "length starts = length slots" "length ends = length slots"
    by (simp_all add: starts_def ends_def len)
  have 2: "\<forall>i<length slots.
         parse_time date_str (start_time (slots ! i)) = Inr (starts ! i) \<and>
         parse_time date_str (end_time (slots ! i)) = Inr (ends ! i)"
  proof (intro allI impI)
    fix i assume "i < length slots"
    then have i: "i < n" by (simp add: len)
    from le [OF i] have a: "day_start \<le> day_start + i * dur \<and> day_start + i * dur \<le> day_end"
      and b: "day_start \<le> day_start + i * dur + dur \<and> day_start + i * dur + dur \<le> day_end"
      by simp_all
    from rt a have pa: "parse_time date_str (format_time (day_start + i * dur)) = Inr (day_start + i * dur)"
      by blast
    from rt b have pb: "parse_time date_str (format_time (day_start + i * dur + dur)) = Inr (day_start + i * dur + dur)"
      by blast
    show "parse_time date_str (start_time (slots ! i)) = Inr (starts ! i) \<and>
         parse_time date_str (end_time (slots ! i)) = Inr (ends ! i)"
      using i pa pb by (simp add: sl starts_def ends_def slot_at_def)
  qed
  have 3: "slots \<noteq> [] \<longrightarrow> starts ! 0 = day_start"
    using len by (cases n) (simp_all add: starts_def upt_conv_Cons del: upt_Suc)
  have 4: "\<forall>i<length slots. ends ! i = starts ! i + dur"
    by (simp add: len starts_def ends_def)
  have 5: "\<forall>i. Suc i < length slots \<longrightarrow> starts ! Suc i = ends ! i"
    by (simp add: len starts_def ends_def)
  have 6: "\<forall>i j. i < j \<and> j < length slots \<longrightarrow>
         starts ! i < starts ! j \<and> \<not> overlaps (starts ! i) (ends ! i) (starts ! j) (ends ! j)"
  proof (intro allI impI)
    fix i j assume ij: "i < j \<and> j < length slots"
    then have "Suc i \<le> j" by simp
    then have "Suc i * dur \<le> j * dur" by (rule mult_le_mono1)
    then have "i * dur + dur \<le> j * dur" by simp
    then show "starts ! i < starts ! j \<and> \<not> overlaps (starts ! i) (ends ! i) (starts ! j) (ends ! j)"
      using ij pos by (simp add: len starts_def ends_def overlaps_def)
  qed
  have 7: "\<forall>i<length slots. ends ! i \<le> day_end"
    using le by (simp add: len ends_def)
  have 8: "day_end < day_start + length slots * dur + dur"
    using g unfolding on_grid_def len by blast
  from dur ds de 1 2 3 4 5 6 7 8 show ?thesis by blast
qed

theorem slots_form_grid_witness:
  "generate_slots (Some example_schedule) ''2024-01-15'' ''consultation'' Map.empty =
     Some (Inr two_slots, Map.empty) \<and>
   get_weekday ''2024-01-15'' = Inr ''monday'' \<and>
   working_hours example_schedule ''monday'' = Some \<lparr>hours_start = ''09:00'', hours_end = ''10:00''\<rparr> \<and>
   (\<exists>duration_min day_start day_end starts ends.
      APPOINTMENT_DURATIONS_MIN ''consultation'' = Some duration_min \<and>
      parse_time ''2024-01-15'' (hours_start \<lparr>hours_start = ''09:00'', hours_end = ''10:00''\<rparr>) = Inr day_start \<and>
      parse_time ''2024-01-15'' (hours_end \<lparr>hours_start = ''09:00'', hours_end = ''10:00''\<rparr>) = Inr day_end \<and>
      length starts = length two_slots \<and> length ends = length two_slots \<and>
      (\<forall>i<length two_slots.
         parse_time ''2024-01-15'' (start_time (two_slots ! i)) = Inr (starts ! i) \<and>
         parse_time ''2024-01-15'' (end_time (two_slots ! i)) = Inr (ends ! i)) \<and>
      (two_slots \<noteq> [] \<longrightarrow> starts ! 0 = day_start) \<and>
      (\<forall>i<length two_slots. ends ! i = starts ! i + duration_min) \<and>
      (\<forall>i. Suc i < length two_slots \<longrightarrow> starts ! Suc i = ends ! i) \<and>
      (\<forall>i j. i < j \<and> j < length two_slots \<longrightarrow>
         starts ! i < starts ! j \<and> \<not> overlaps (starts ! i) (ends ! i) (starts ! j) (ends ! j)) \<and>
      (\<forall>i<length two_slots. ends ! i \<le> day_end) \<and>
      day_end < day_start + length two_slots * duration_min + duration_min)"
proof -
  have w: "working_hours example_schedule ''monday'' =
             Some \<lparr>hours_start = ''09:00'', hours_end = ''10:00''\<rparr>"
    by (simp add: example_schedule_def)
  note t = slots_form_grid [OF example_slots monday w]
  show ?thesis
    apply (intro conjI)
       apply (rule example_slots)
      apply (rule monday)
     apply (rule w)
    apply (rule t)
    done
qed

section \<open>Booking a free slot, and booking it again\<close>

text \<open>
  Claim C4, as the code has it. When the start-time string of a request is the start-time
  string of a slot that generation returns for the request's date and type, and that slot
  is available, the booking succeeds with status "confirmed" (the end of the request is its
  start plus the duration of the type, so it is the end of that slot). The same request
  again, on the store the first booking left, fails with the 409 conflict error, not with
  the 400 error for a time outside working hours, and leaves the store as it is.
\<close>

theorem book_available_then_conflict:
  assumes gen: "generate_slots (Some schedule_data) (req_date request) (req_appointment_type request)
                  store = Some (Inr slots, store')"
    and s: "s \<in> set slots" and av: "available s"
    and st: "req_start_time request = start_time s"
  shows "\<exists>response store1.
           book_appointment (Some schedule_data) fresh request store = Some (Inr response, store1) \<and>
           status response = ''confirmed'' \<and>
           book_appointment (Some schedule_data) fresh' request store1 =
             Some (Inl (HTTPException 409 ''Requested time is no longer available''), store1)"
proof -
  let ?d = "req_date request" and ?ty = "req_appointment_type request"
  from s have ne: "slots \<noteq> []" by auto
  from generate_slots_window [OF gen ne] obtain wd h where
    wd: "get_weekday ?d = Inr wd" and wh: "working_hours schedule_data wd = Some h"
    by blast
  from generate_slots_grid [OF gen wd wh] obtain dur day_start day_end existing n where
    dur: "APPOINTMENT_DURATIONS_MIN ?ty = Some dur" and pos: "0 < dur"
    and ds: "parse_time ?d (hours_start h) = Inr day_start"
    and de: "parse_time ?d (hours_end h) = Inr day_end"
    and col: "collect_existing_bookings schedule_data ?d store = (Inr existing, store)"
    and st': "store' = store"
    and sl: "slots = map (\<lambda>k. slot_at existing dur (day_start + k * dur)) [0..<n]"
    and g: "on_grid dur day_end day_start n"
    and rt: "\<forall>x. day_start \<le> x \<and> x \<le> day_end \<longrightarrow> parse_time ?d (format_time x) = Inr x"
    by blast
  from s sl obtain k where k: "k < n" and sk: "s = slot_at existing dur (day_start + k * dur)"
    by auto
  define c where "c = day_start + k * dur"
  from g k have le: "c + dur \<le> day_end" and am: "add_minutes c dur = Inr (c + dur)"
    unfolding on_grid_def c_def by blast+
  have pc: "parse_time ?d (format_time c) = Inr c" using rt le by (simp add: c_def)
  have pe: "parse_time ?d (format_time (c + dur)) = Inr (c + dur)" using rt le by (simp add: c_def)
  have rs: "req_start_time request = format_time c" using st by (simp add: sk slot_at_def c_def)
  have parse: "parse_time ?d (req_start_time request) = Inr c" using pc rs by simp
  have key: "(req_start_time request, strftime_HM (c + dur)) = slot_key s"
    by (simp add: rs sk slot_at_key c_def format_time_def)
  have dist: "distinct (map slot_key slots)"
    unfolding sl using pos rt g by (rule grid_keys_distinct)
  have look: "slot_map slots (req_start_time request, strftime_HM (c + dur)) = Some s"
    unfolding key using dist s by (rule slot_map_distinct)
  define store1 where
    "store1 = store(?d \<mapsto> runtime_entries store ?d @ [(req_start_time request, strftime_HM (c + dur))])"
  have first: "book_appointment (Some schedule_data) fresh request store =
                 Some (Inr (confirmation fresh request (strftime_HM (c + dur))), store1)"
    unfolding book_eval [OF dur parse am gen] using look av by (simp add: store1_def)
  have col1: "collect_existing_bookings schedule_data ?d store1 =
                (Inr (existing @ [(c, c + dur)]), store1)"
    unfolding store1_def
    using collect_after_commit [OF col parse pe [unfolded format_time_def]] .
  define slots1 where
    "slots1 = map (\<lambda>k. slot_at (existing @ [(c, c + dur)]) dur (day_start + k * dur)) [0..<n]"
  have gen1: "generate_slots (Some schedule_data) ?d ?ty store1 = Some (Inr slots1, store1)"
    unfolding slots1_def using wd wh dur ds de col1 g by (rule generate_slots_intro)
  define s1 where "s1 = slot_at (existing @ [(c, c + dur)]) dur c"
  have s1: "s1 \<in> set slots1" using k by (auto simp: slots1_def s1_def c_def)
  have key1: "(req_start_time request, strftime_HM (c + dur)) = slot_key s1"
    by (simp add: rs s1_def slot_at_key format_time_def)
  have dist1: "distinct (map slot_key slots1)"
    unfolding slots1_def using pos rt g by (rule grid_keys_distinct)
  have look1: "slot_map slots1 (req_start_time request, strftime_HM (c + dur)) = Some s1"
    unfolding key1 using dist1 s1 by (rule slot_map_distinct)
  have taken: "\<not> available s1"
    using pos by (simp add: s1_def slot_at_def overlaps_def)
  have second: "book_appointment (Some schedule_data) fresh' request store1 =
                 Some (Inl (HTTPException 409 ''Requested time is no longer available''), store1)"
    unfolding book_eval [OF dur parse am gen1] using look1 taken by simp
  have "status (confirmation fresh request (strftime_HM (c + dur))) = ''confirmed''"
    by (simp add: confirmation_def)
  with first second show ?thesis by blast
qed

theorem book_available_then_conflict_witness:
  "generate_slots (Some example_schedule) ''2024-01-15'' ''consultation'' Map.empty
     = Some (Inr two_slots, Map.empty) \<and>
   \<lparr>start_time = ''09:00'', end_time = ''09:30'', available = True\<rparr> \<in> set two_slots \<and>
   available \<lparr>start_time = ''09:00'', end_time = ''09:30'', available = True\<rparr> \<and>
   (\<exists>response store1.
      book_appointment (Some example_schedule) example_fresh
        (example_request ''consultation'' ''2024-01-15'' ''09:00'') Map.empty
        = Some (Inr response, store1) \<and>
      status response = ''confirmed'' \<and>
      book_appointment (Some example_schedule) example_fresh
        (example_request ''consultation'' ''2024-01-15'' ''09:00'') store1
        = Some (Inl (HTTPException 409 ''Requested time is no longer available''), store1))"
proof -
  let ?r = "example_request ''consultation'' ''2024-01-15'' ''09:00''"
  let ?s = "\<lparr>start_time = ''09:00'', end_time = ''09:30'', available = True\<rparr>"
  have g: "generate_slots (Some example_schedule) (req_date ?r) (req_appointment_type ?r) Map.empty
             = Some (Inr two_slots, Map.empty)"
    using example_slots by (simp add: example_request_def)
  have m: "?s \<in> set two_slots" by (simp add: two_slots_def)
  have a: "available ?s" by simp
  have e: "req_start_time ?r = start_time ?s" by (simp add: example_request_def)
  note t = book_available_then_conflict [OF g m a e, of example_fresh example_fresh]
  show ?thesis
    apply (intro conjI)
       apply (rule example_slots)
      apply (rule m)
     apply (rule a)
    apply (rule t)
    done
qed

text \<open>
  Claim C4 as stated, with the requested interval compared to the slot by value, does not
  hold: the request below asks for the interval of the first slot, which is available, and
  is refused with the 400 error, since its start time is not written as the slot's.
\<close>

theorem book_available_counterexample:
  "generate_slots (Some example_schedule) ''2024-01-15'' ''consultation'' Map.empty
     = Some (Inr two_slots, Map.empty) \<and>
   available (two_slots ! 0) \<and>
   parse_time ''2024-01-15'' ''9:00'' = parse_time ''2024-01-15'' (start_time (two_slots ! 0)) \<and>
   parse_time ''2024-01-15'' ''9:00'' = Inr 1064016540 \<and>
   add_minutes 1064016540 30 = Inr 1064016570 \<and>
   parse_time ''2024-01-15'' (end_time (two_slots ! 0)) = Inr 1064016570 \<and>
   book_appointment (Some example_schedule) example_fresh
       (example_request ''consultation'' ''2024-01-15'' ''9:00'') Map.empty
     = Some (Inl (HTTPException 400 ''Requested time is outside working hours''), Map.empty)"
proof -
  have 1: "available (two_slots ! 0)"
    by (simp add: two_slots_def)
  have 2: "parse_time ''2024-01-15'' ''9:00'' = parse_time ''2024-01-15'' (start_time (two_slots ! 0))"
    by (simp add: two_slots_def eval_defs)
  have 3: "parse_time ''2024-01-15'' ''9:00'' = Inr 1064016540"
    by (simp add: eval_defs)
  have 4: "add_minutes 1064016540 30 = Inr 1064016570"
    by (simp add: eval_defs)
  have 5: "parse_time ''2024-01-15'' (end_time (two_slots ! 0)) = Inr 1064016570"
    by (simp add: two_slots_def eval_defs)
  show ?thesis
    apply (intro conjI)
          apply (rule example_slots)
         apply (rule 1)
        apply (rule 2)
       apply (rule 3)
      apply (rule 4)
     apply (rule 5)
    apply (rule example_unpadded)
    done
qed

section \<open>Requests off the grid\<close>

text \<open>
  Claim C5. A request with a known appointment type and a date and start time that parse,
  whose interval is no slot of the grid, should fail with the 400 error "Requested time is
  outside working hours". The code breaks this where an exception escapes it. On the last
  day of the calendar the end of the request is computed before the grid is consulted and
  the addition raises \<^verbatim>\<open>OverflowError\<close>, which the function does not catch: the request for
  23:30 has a known type, its date and time parse, the one slot of its day starts at 09:00,
  and the result is that exception, not the 400 error. A date with a blank after it passes
  the parse of date and time together and fails in \<open>get_weekday\<close>, with a
  \<^verbatim>\<open>ValueError\<close> that is not caught either. In both cases the store is left as it was.
\<close>

theorem book_uncaught_exceptions:
  "APPOINTMENT_DURATIONS_MIN ''special'' = Some 60 \<and>
   parse_time ''9999-12-31'' ''23:30'' = Inr (3652059 * 1440 + 1410) \<and>
   generate_slots (Some friday_schedule) ''9999-12-31'' ''special'' Map.empty
     = Some (Inr [\<lparr>start_time = ''09:00'', end_time = ''10:00'', available = True\<rparr>], Map.empty) \<and>
   parse_time ''9999-12-31'' ''09:00'' = Inr (3652059 * 1440 + 540) \<and>
   book_appointment (Some friday_schedule) example_fresh
       (example_request ''special'' ''9999-12-31'' ''23:30'') Map.empty
     = Some (Inl OverflowError, Map.empty) \<and>
   book_appointment (Some friday_schedule) example_fresh
       (example_request ''special'' ''9999-12-31'' ''23:30'') Map.empty
     \<noteq> Some (Inl (HTTPException 400 ''Requested time is outside working hours''), Map.empty) \<and>
   parse_time ''2024-01-15 '' ''09:10'' = Inr 1064016550 \<and>
   get_weekday ''2024-01-15 '' = Inl ValueError \<and>
   book_appointment (Some example_schedule) example_fresh
       (example_request ''consultation'' ''2024-01-15 '' ''09:10'') Map.empty
     = Some (Inl ValueError, Map.empty)"
proof -
  have k: "APPOINTMENT_DURATIONS_MIN ''special'' = Some 60"
    by (simp add: eval_defs)
  have p: "parse_time ''9999-12-31'' ''23:30'' = Inr (3652059 * 1440 + 1410)"
    by (simp add: eval_defs)
  have q: "parse_time ''9999-12-31'' ''09:00'' = Inr (3652059 * 1440 + 540)"
    by (simp add: eval_defs)
  have n: "book_appointment (Some friday_schedule) example_fresh
       (example_request ''special'' ''9999-12-31'' ''23:30'') Map.empty
     \<noteq> Some (Inl (HTTPException 400 ''Requested time is outside working hours''), Map.empty)"
    by (simp add: last_day_book)
  have b: "parse_time ''2024-01-15 '' ''09:10'' = Inr 1064016550"
    by (simp add: eval_defs)
  have w: "get_weekday ''2024-01-15 '' = Inl ValueError"
    by (simp add: eval_defs)
  show ?thesis
    apply (intro conjI)
            apply (rule k)
           apply (rule p)
          apply (rule last_day_slots)
         apply (rule q)
        apply (rule last_day_book)
       apply (rule n)
      apply (rule b)
     apply (rule w)
    apply (rule trailing_blank_book)
    done
qed

text \<open>
  Where no exception escapes, the request is refused as the claim says: when the end of the
  request is a datetime and slot generation returns a list, a request whose start and end
  are those of no returned slot gets the 400 error, and the store is left as it was; a
  closed day, where the list is empty, is one such case.
\<close>

lemma book_off_grid:
  assumes known: "APPOINTMENT_DURATIONS_MIN (req_appointment_type request) = Some duration_min"
    and parse: "parse_time (req_date request) (req_start_time request) = Inr start_dt"
    and add: "add_minutes start_dt duration_min = Inr end_dt"
    and gen: "generate_slots file (req_date request) (req_appointment_type request) store
                = Some (Inr slots, store')"
    and off: "\<forall>s \<in> set slots.
                \<not> (parse_time (req_date request) (start_time s) = Inr start_dt \<and>
                   parse_time (req_date request) (end_time s) = Inr end_dt)"
  shows "book_appointment file fresh request store =
           Some (Inl (HTTPException 400 ''Requested time is outside working hours''), store)"
proof -
  have "slot_map slots (req_start_time request, strftime_HM end_dt) = None"
  proof (rule ccontr)
    assume "slot_map slots (req_start_time request, strftime_HM end_dt) \<noteq> None"
    then obtain s where "slot_map slots (req_start_time request, strftime_HM end_dt) = Some s"
      by auto
    from slot_map_Some [OF this] have s: "s \<in> set slots"
      and ks: "start_time s = req_start_time request" and ke: "end_time s = strftime_HM end_dt"
      by (simp_all add: slot_key_def)
    from gen obtain sched where f: "file = Some sched"
      by (cases "file") (auto simp: generate_slots_def load_schedule_def)
    from s have ne: "slots \<noteq> []" by auto
    from generate_slots_window [OF gen [unfolded f] ne] obtain wd h where
      wd: "get_weekday (req_date request) = Inr wd" and wh: "working_hours sched wd = Some h"
      by blast
    from generate_slots_grid [OF gen [unfolded f] wd wh] known obtain day_start day_end existing n where
      sl: "slots = map (\<lambda>k. slot_at existing duration_min (day_start + k * duration_min)) [0..<n]"
      and g: "on_grid duration_min day_end day_start n"
      and rt: "\<forall>x. day_start \<le> x \<and> x \<le> day_end \<longrightarrow>
                 parse_time (req_date request) (format_time x) = Inr x"
      by auto
    from s sl obtain k where k: "k < n"
      and sk: "s = slot_at existing duration_min (day_start + k * duration_min)"
      by auto
    define c where "c = day_start + k * duration_min"
    from g k have le: "c + duration_min \<le> day_end" unfolding on_grid_def c_def by blast
    have pc: "parse_time (req_date request) (start_time s) = Inr c"
      using rt le by (simp add: sk slot_at_def c_def)
    have pe: "parse_time (req_date request) (end_time s) = Inr (c + duration_min)"
      using rt le by (simp add: sk slot_at_def c_def)
    from pc parse ks have "c = start_dt" by simp
    moreover from add have "end_dt = start_dt + duration_min" by (rule add_minutes_Inr)
    ultimately have "parse_time (req_date request) (start_time s) = Inr start_dt \<and>
                   parse_time (req_date request) (end_time s) = Inr end_dt"
      using pc pe by simp
    with off s show False by blast
  qed
  then show ?thesis
    unfolding book_eval [OF known parse add gen] by simp
qed

section \<open>A booking writes all or nothing\<close>

text \<open>
  Claim C6. Every call of \<open>book_appointment\<close> returns. When it fails, with whatever error
  (unknown appointment type, malformed date or time, outside working hours, conflict, or an
  exception the function does not catch), the runtime store is the one it was given. When
  it succeeds, the store differs in one place: the list of the requested date has one more
  entry at its end, the requested start time with the formatted end time, the start plus
  the duration of the type.
\<close>

theorem book_all_or_nothing:
  "\<exists>result store'.
     book_appointment file fresh request store = Some (result, store') \<and>
     (case result of
        Inl e \<Rightarrow> store' = store
      | Inr response \<Rightarrow>
          \<exists>duration_min start_dt end_dt.
            APPOINTMENT_DURATIONS_MIN (req_appointment_type request) = Some duration_min \<and>
            parse_time (req_date request) (req_start_time request) = Inr start_dt \<and>
            add_minutes start_dt duration_min = Inr end_dt \<and>
            store' = store(req_date request \<mapsto>
                       (case store (req_date request) of None \<Rightarrow> [] | Some entries \<Rightarrow> entries)
                         @ [(req_start_time request, format_time end_dt)]))"
proof (cases "APPOINTMENT_DURATIONS_MIN (req_appointment_type request)")
  case None
  then show ?thesis by (simp add: book_appointment_def)
next
  case (Some dur)
  show ?thesis
  proof (cases "parse_time (req_date request) (req_start_time request)")
    case (Inl e)
    then show ?thesis using Some by (simp add: book_appointment_def)
  next
    case p: (Inr start_dt)
    show ?thesis
    proof (cases "add_minutes start_dt dur")
      case (Inl e)
      then show ?thesis using Some p by (simp add: book_appointment_def)
    next
      case a: (Inr end_dt)
      obtain r where g: "generate_slots file (req_date request) (req_appointment_type request) store
                          = Some (r, store)"
        using generate_slots_returns by blast
      show ?thesis
      proof (cases r)
        case (Inl e)
        with g book_raises show ?thesis by fastforce
      next
        case (Inr slots)
        show ?thesis
          unfolding book_eval [OF Some p a g [unfolded Inr]]
          using Some p a
          by (simp add: runtime_entries_def format_time_def split: option.splits)
      qed
    qed
  qed
qed

theorem book_all_or_nothing_witness:
  "(\<exists>result store'.
     book_appointment (Some example_schedule) example_fresh
       (example_request ''consultation'' ''2024-01-15'' ''09:00'') Map.empty = Some (result, store') \<and>
     (case result of
        Inl e \<Rightarrow> store' = Map.empty
      | Inr response \<Rightarrow>
          \<exists>duration_min start_dt end_dt.
            APPOINTMENT_DURATIONS_MIN
              (req_appointment_type (example_request ''consultation'' ''2024-01-15'' ''09:00''))
              = Some duration_min \<and>
            parse_time (req_date (example_request ''consultation'' ''2024-01-15'' ''09:00''))
              (req_start_time (example_request ''consultation'' ''2024-01-15'' ''09:00''))
              = Inr start_dt \<and>
            add_minutes start_dt duration_min = Inr end_dt \<and>
            store' = Map.empty(req_date (example_request ''consultation'' ''2024-01-15'' ''09:00'') \<mapsto>
                       (case Map.empty (req_date (example_request ''consultation'' ''2024-01-15'' ''09:00''))
                        of None \<Rightarrow> [] | Some entries \<Rightarrow> entries)
                         @ [(req_start_time (example_request ''consultation'' ''2024-01-15'' ''09:00''),
                             format_time end_dt)])))
   \<and> book_appointment (Some example_schedule) example_fresh
       (example_request ''consultation'' ''2024-01-15'' ''09:00'') Map.empty
     = Some (Inr (confirmation example_fresh
                    (example_request ''consultation'' ''2024-01-15'' ''09:00'') ''09:30''),
             [''2024-01-15'' \<mapsto> [(''09:00'', ''09:30'')]])
   \<and> book_appointment (Some example_schedule) example_fresh
       (example_request ''consultation'' ''2024-01-15'' ''09:10'') Map.empty
     = Some (Inl (HTTPException 400 ''Requested time is outside working hours''), Map.empty)"
  apply (intro conjI)
    apply (rule book_all_or_nothing)
   apply (rule example_book)
  apply (rule example_misaligned)
  done

section \<open>Availability queries do not write\<close>

text \<open>
  Claim C7. Slot generation returns, and returns the runtime booking store it was given: it
  reads the store with \<^verbatim>\<open>get\<close> only. Hence two availability queries in a row with the same
  inputs, with no booking between them, return the same result (the same slots in the same
  order with the same flags, or the same error), and the store after both is the store before.
\<close>

theorem generate_slots_reads_only:
  "\<exists>r. two_queries file date_str appointment_type store = Some (r, r, store)"
proof -
  obtain r where "generate_slots file date_str appointment_type store = Some (r, store)"
    using generate_slots_returns by blast
  then show ?thesis by (simp add: two_queries_def)
qed

theorem generate_slots_reads_only_witness:
  "\<exists>r. two_queries (Some busy_schedule) ''2024-01-15'' ''consultation''
         [''2024-01-15'' \<mapsto> [(''09:00'', ''09:30'')]]
       = Some (r, r, [''2024-01-15'' \<mapsto> [(''09:00'', ''09:30'')]])"
  using generate_slots_reads_only
    [of "Some busy_schedule" "''2024-01-15''" "''consultation''"
        "[''2024-01-15'' \<mapsto> [(''09:00'', ''09:30'')]]"]
  by simp

section \<open>Closed days\<close>

text \<open>
  Claim C8. For a date whose weekday has no working-hours window in the schedule, slot
  generation returns the empty list, not an error, for every appointment type, whatever
  bookings the schedule file and the runtime store hold for that date, and leaves the
  store as it was.
\<close>

theorem closed_day_no_slots:
  assumes "get_weekday date_str = Inr weekday"
    and "working_hours schedule_data weekday = None"
  shows "generate_slots (Some schedule_data) date_str appointment_type store = Some (Inr [], store)"
  using assms by (rule generate_slots_closed)

theorem closed_day_no_slots_witness:
  "get_weekday ''2024-01-14'' = Inr ''sunday''
   \<and> working_hours busy_schedule ''sunday'' = None
   \<and> generate_slots (Some busy_schedule) ''2024-01-14'' ''consultation''
        [''2024-01-14'' \<mapsto> [(''09:00'', ''09:30'')]]
      = Some (Inr [], [''2024-01-14'' \<mapsto> [(''09:00'', ''09:30'')]])"
proof -
  have w: "working_hours busy_schedule ''sunday'' = None"
    by (simp add: busy_schedule_def)
  show ?thesis
    using closed_day_no_slots [OF sunday w] sunday w by simp
qed

section \<open>Matching is on strings\<close>

text \<open>
  Claim C10. \<open>book_appointment\<close> looks the pair of the request's start string and the
  formatted end time up among the pairs of strings of the slots. The start time
  \<^verbatim>\<open>9:00\<close> parses to the same datetime as \<^verbatim>\<open>09:00\<close>, the start of an available slot, and
  the end formats to that slot's end \<^verbatim>\<open>09:30\<close>; the pair is not in the map, and the request
  fails with the 400 error for a time outside working hours, where the request with
  \<^verbatim>\<open>09:00\<close> succeeds.
\<close>

theorem matching_is_on_strings:
  "generate_slots (Some example_schedule) ''2024-01-15'' ''consultation'' Map.empty
     = Some (Inr two_slots, Map.empty) \<and>
   two_slots ! 0 = \<lparr>start_time = ''09:00'', end_time = ''09:30'', available = True\<rparr> \<and>
   parse_time ''2024-01-15'' ''9:00'' = Inr 1064016540 \<and>
   parse_time ''2024-01-15'' ''09:00'' = Inr 1064016540 \<and>
   add_minutes 1064016540 30 = Inr 1064016570 \<and>
   format_time 1064016570 = ''09:30'' \<and>
   slot_map two_slots (''9:00'', ''09:30'') = None \<and>
   book_appointment (Some example_schedule) example_fresh
       (example_request ''consultation'' ''2024-01-15'' ''9:00'') Map.empty
     = Some (Inl (HTTPException 400 ''Requested time is outside working hours''), Map.empty) \<and>
   book_appointment (Some example_schedule) example_fresh
       (example_request ''consultation'' ''2024-01-15'' ''09:00'') Map.empty
     = Some (Inr (confirmation example_fresh
                    (example_request ''consultation'' ''2024-01-15'' ''09:00'') ''09:30''),
             [''2024-01-15'' \<mapsto> [(''09:00'', ''09:30'')]])"
proof -
  have 1: "two_slots ! 0 = \<lparr>start_time = ''09:00'', end_time = ''09:30'', available = True\<rparr>"
    by (simp add: two_slots_def)
  have 2: "parse_time ''2024-01-15'' ''9:00'' = Inr 1064016540"
    by (simp add: eval_defs)
  have 3: "parse_time ''2024-01-15'' ''09:00'' = Inr 1064016540"
    by (simp add: eval_defs)
  have 4: "add_minutes 1064016540 30 = Inr 1064016570"
    by (simp add: eval_defs)
  have 5: "format_time 1064016570 = ''09:30''"
    by (simp add: eval_defs)
  have 6: "slot_map two_slots (''9:00'', ''09:30'') = None"
    by (simp add: slot_map_def two_slots_def)
  show ?thesis
    apply (intro conjI)
            apply (rule example_slots)
           apply (rule 1)
          apply (rule 2)
         apply (rule 3)
        apply (rule 4)
       apply (rule 5)
      apply (rule 6)
     apply (rule example_unpadded)
    apply (rule example_book)
    done
qed

end
